theory Spec2Isabelle
  imports Complex_Main
begin

section \<open>Values, errors and array helpers\<close>

text \<open>
  The repository is numerical Python on numpy arrays. A double is modelled as a \<open>real\<close>:
  rounding is abstracted away. The reals have no \<open>inf\<close> and no \<open>nan\<close>, so a division of
  doubles whose divisor may be zero is written with \<open>fdiv\<close>, which leaves the model with
  the marker \<open>NonFinite\<close>. The marker is not a Python exception (numpy only warns and stores
  \<open>inf\<close>/\<open>nan\<close>); it says that the run has left what the real-number model describes, and
  nothing is claimed about such a run. The other constructors are the exceptions the
  modelled code can raise.
\<close>

datatype error = ValueError | ZeroDivisionError | IndexError | NameError | NonFinite

definition and_then :: "error + 'a \<Rightarrow> ('a \<Rightarrow> error + 'b) \<Rightarrow> error + 'b" where
  "and_then r f = (case r of Inl e \<Rightarrow> Inl e | Inr x \<Rightarrow> f x)"

fun sequence :: "(error + 'a) list \<Rightarrow> error + 'a list" where
  "sequence [] = Inr []"
| "sequence (r # rs) =
     (case r of Inl e \<Rightarrow> Inl e
      | Inr x \<Rightarrow> (case sequence rs of Inl e \<Rightarrow> Inl e | Inr xs \<Rightarrow> Inr (x # xs)))"

definition fdiv :: "real \<Rightarrow> real \<Rightarrow> error + real" where
  "fdiv a b = (if b = 0 then Inl NonFinite else Inr (a / b))"

text \<open>\<open>np.average(a, weights=w)\<close>: raises ZeroDivisionError when the weights sum to zero.\<close>

definition np_average :: "real list \<Rightarrow> real list \<Rightarrow> error + real" where
  "np_average a w =
     (let scl = sum_list w
      in if scl = 0 then Inl ZeroDivisionError
         else Inr (sum_list (map2 (*) a w) / scl))"

text \<open>\<open>np.std(x)\<close>: the population standard deviation; \<open>nan\<close> on an empty array.\<close>

definition np_mean :: "real list \<Rightarrow> real" where
  "np_mean x = sum_list x / real (length x)"

definition np_std :: "real list \<Rightarrow> error + real" where
  "np_std x =
     (if x = [] then Inl NonFinite
      else Inr (sqrt (np_mean (map (\<lambda>v. (v - np_mean x)\<^sup>2) x))))"

text \<open>Fancy indexing \<open>a[idx]\<close> with an integer index array: IndexError out of range.\<close>

definition take_idx :: "'a list \<Rightarrow> nat list \<Rightarrow> error + 'a list" where
  "take_idx a idx =
     (if list_all (\<lambda>k. k < length a) idx then Inr (map (\<lambda>k. a ! k) idx)
      else Inl IndexError)"

section \<open>shear/profile.py: module constants and the helpers of Profile\<close>

definition cvel :: real where "cvel = 299792458"
definition G :: real where "G = 667 / 10 ^ 13"
definition pc :: real where "pc = 3085678 * 10 ^ 10"
definition Msun :: real where "Msun = 1989 * 10 ^ 27"

definition deg2rad :: "real \<Rightarrow> real" where
  "deg2rad x = x * (pi / 180)"

text \<open>\<open>set_Mpc_scale\<close> (line 85), for one galaxy of the column \<open>dl\<close>.\<close>

definition set_Mpc_scale :: "real \<Rightarrow> real" where
  "set_Mpc_scale dl = dl * deg2rad (1 / 3600)"

text \<open>
  \<open>set_sigma_critic\<close> (lines 89-90), for one galaxy. Nothing is checked and nothing is
  raised: a zero \<open>ds\<close>, \<open>dls\<close> or \<open>dl\<close> gives a non-finite double.
\<close>

definition set_sigma_critic :: "real \<Rightarrow> real \<Rightarrow> real \<Rightarrow> error + real" where
  "set_sigma_critic dl ds dls =
     and_then (fdiv dls ds) (\<lambda>beta.
     and_then (fdiv (cvel\<^sup>2) (4 * pi * G * (dl * 10 ^ 6 * pc))) (\<lambda>a.
     and_then (fdiv 1 beta) (\<lambda>b.
       Inr (a * b * (pc\<^sup>2 / Msun)))))"

subsection \<open>numpy: linspace, geomspace, digitize\<close>

definition linspace :: "real \<Rightarrow> real \<Rightarrow> int \<Rightarrow> error + real list" where
  "linspace start stop num =
     (if num < 0 then Inl ValueError
      else if num \<le> 1 then Inr (map (\<lambda>k. real k * (stop - start) + start) [0..<nat num])
      else Inr ((map (\<lambda>k. real k * ((stop - start) / real_of_int (num - 1)) + start)
                   [0..<nat num]) [nat num - 1 := stop]))"

definition geomspace :: "real \<Rightarrow> real \<Rightarrow> int \<Rightarrow> error + real list" where
  "geomspace start stop num =
     (if start = 0 \<or> stop = 0 then Inl ValueError
      else if num < 0 then Inl ValueError
      else if (start < 0) \<noteq> (stop < 0) then Inl NonFinite
      else
        (let out_sign = (if start < 0 then - 1 else 1);
             a = \<bar>start\<bar>; b = \<bar>stop\<bar>
         in and_then (linspace (log 10 a) (log 10 b) num) (\<lambda>ys.
              Inr (map (\<lambda>y. out_sign * (10 powr y)) ys))))"

text \<open>
  \<open>np.digitize(x, bins)\<close> first checks that \<open>bins\<close> is monotonic: 1 for non-decreasing
  (also empty or constant), -1 for non-increasing, 0 otherwise, and then ValueError.
\<close>

fun check_up :: "real \<Rightarrow> real list \<Rightarrow> bool" where
  "check_up lst [] = True"
| "check_up lst (nxt # more) = (if lst > nxt then False else check_up nxt more)"

fun check_down :: "real \<Rightarrow> real list \<Rightarrow> bool" where
  "check_down lst [] = True"
| "check_down lst (nxt # more) = (if lst < nxt then False else check_down nxt more)"

definition monotonicity :: "real list \<Rightarrow> int" where
  "monotonicity a =
     (case a of [] \<Rightarrow> 1
      | lst # rest \<Rightarrow>
          (case dropWhile (\<lambda>v. v = lst) rest of [] \<Rightarrow> 1
           | nxt # more \<Rightarrow>
               if lst < nxt then (if check_up nxt more then 1 else 0)
               else (if check_down nxt more then - 1 else 0)))"

text \<open>\<open>np.searchsorted(a, v, side='right')\<close> on a non-decreasing \<open>a\<close>.\<close>

definition searchsorted_right :: "real list \<Rightarrow> real \<Rightarrow> nat" where
  "searchsorted_right a v = length (takeWhile (\<lambda>b. b \<le> v) a)"

definition digitize :: "real list \<Rightarrow> real list \<Rightarrow> error + int list" where
  "digitize x bins =
     (let mono = monotonicity bins
      in if mono = 0 then Inl ValueError
         else if mono = - 1
           then Inr (map (\<lambda>v. int (length bins) - int (searchsorted_right (rev bins) v)) x)
           else Inr (map (\<lambda>v. int (searchsorted_right bins v)) x))"

section \<open>shear/profile.py: class Profile\<close>

text \<open>
  One row of the catalog. \<open>gentools.sphere_angular_vector\<close> and \<open>gentools.polar_rotation\<close>
  are not part of the modelled files, so what they return for the galaxy is taken as given:
  \<open>cat_dist\<close> is the separation from the lens in degrees (line 30), \<open>cat_et\<close> and \<open>cat_ex\<close>
  are the rotated ellipticity components (line 34). The other fields are the catalog
  columns \<open>m\<close>, \<open>weight\<close>, \<open>DL\<close>, \<open>DS\<close>, \<open>DLS\<close>. The catalog is the column-addressable table
  that line 26 onwards indexes by name.
\<close>

record source =
  cat_dist :: real
  cat_et :: real
  cat_ex :: real
  cat_m :: real
  cat_weight :: real
  cat_DL :: real
  cat_DS :: real
  cat_DLS :: real

datatype bins_arg = BinsInt int | BinsArray "real list"

record profile =
  bins :: "real list"
  r_hMpc :: "real list"
  shear :: "real list"
  cero :: "real list"
  shear_error :: "real list"
  cero_error :: "real list"
  stat_error :: "real list"
  N :: "nat list"

text \<open>
  The random number generator of numpy is a library of its own. It is a parameter:
  \<open>rng_seed s\<close> is the generator state after \<open>np.random.seed(s)\<close>, and
  \<open>rng_randint g high size\<close> draws \<open>size\<close> integers below \<open>high\<close> from state \<open>g\<close> and gives the
  state after the draw.
\<close>

record 'g rng =
  rng_seed :: "nat \<Rightarrow> 'g"
  rng_randint :: "'g \<Rightarrow> nat \<Rightarrow> nat \<Rightarrow> nat list \<times> 'g"

text \<open>
  \<open>astropy.stats.bootstrap(data, bootnum)\<close> with the default \<open>samples = len(data)\<close>:
  ValueError when \<open>samples < 1\<close> or \<open>bootnum < 1\<close>, then \<open>bootnum\<close> rows, each
  \<open>data[randint(0, len(data), samples)]\<close>.
\<close>

fun boot_rows :: "'g rng \<Rightarrow> nat \<Rightarrow> nat \<Rightarrow> 'g \<Rightarrow> nat list list \<times> 'g" where
  "boot_rows r n 0 g = ([], g)"
| "boot_rows r n (Suc k) g =
     (let (row, g1) = rng_randint r g n n;
          (rows, g2) = boot_rows r n k g1
      in (row # rows, g2))"

definition bootstrap :: "'g rng \<Rightarrow> nat list \<Rightarrow> int \<Rightarrow> 'g \<Rightarrow> (error + nat list list) \<times> 'g" where
  "bootstrap r data bootnum g =
     (if length data < 1 \<or> bootnum < 1 then (Inl ValueError, g)
      else (let (rows, g1) = boot_rows r (length data) (nat bootnum) g
            in (sequence (map (take_idx data) rows), g1)))"

text \<open>
  \<open>Profile._boot_error\<close> (lines 93-103). \<open>NumpyRNGContext(seed=1)\<close> saves the state of the
  global generator on entry, seeds it with 1, and puts the saved state back on exit, also
  when the body raises. \<open>g\<close> is the state of the global generator at the call.
\<close>

definition avg_rows :: "real list list \<Rightarrow> real list list \<Rightarrow> error + real list" where
  "avg_rows a w = sequence (map2 np_average a w)"

definition boot_error ::
  "'g rng \<Rightarrow> real list \<Rightarrow> real list \<Rightarrow> real list \<Rightarrow> int \<Rightarrow> 'g \<Rightarrow> (error + real \<times> real) \<times> 'g" where
  "boot_error r shear_v cero_v weight nboot g =
     (let index = [0..<length shear_v];
          startstate = g;
          (bootresult, g1) = bootstrap r index nboot (rng_seed r 1)
      in (and_then bootresult (\<lambda>index_boot.
          and_then (sequence (map (take_idx shear_v) index_boot)) (\<lambda>shear_boot.
          and_then (sequence (map (take_idx cero_v) index_boot)) (\<lambda>cero_boot.
          and_then (sequence (map (take_idx weight) index_boot)) (\<lambda>weight_boot.
          and_then (avg_rows shear_boot weight_boot) (\<lambda>shear_means.
          and_then (avg_rows cero_boot weight_boot) (\<lambda>cero_means.
          and_then (np_std shear_means) (\<lambda>s.
          and_then (np_std cero_means) (\<lambda>c. Inr (s, c))))))))),
          startstate))"

text \<open>\<open>a[mask]\<close> with \<open>mask = digit==i\<close> (line 61).\<close>

definition masked :: "int list \<Rightarrow> nat \<Rightarrow> 'a list \<Rightarrow> 'a list" where
  "masked digit i a = map snd (filter (\<lambda>(d, v). d = int i) (zip digit a))"

text \<open>
  Lines 64-72 for one non-empty bin: \<open>gs\<close> is \<open>cat[mask]\<close> and \<open>sc\<close> is
  \<open>self.sigma_critic[mask]\<close>. \<open>m_cal[i]\<close> is written and read in the same iteration only,
  so it is a value of the iteration.
\<close>

record bin_stats =
  b_m_cal :: real
  b_shear :: real
  b_cero :: real
  b_stat_error :: real
  b_et_sc :: "real list"
  b_ex_sc :: "real list"
  b_weight :: "real list"

definition bin_statistics :: "source list \<Rightarrow> (error + real) list \<Rightarrow> error + bin_stats" where
  "bin_statistics gs sc =
     and_then (sequence sc) (\<lambda>sigma_critic.
     and_then (sequence (map2 (\<lambda>s c. fdiv (cat_weight s) (c\<^sup>2)) gs sigma_critic)) (\<lambda>weight.
     and_then (np_average (map cat_m gs) weight) (\<lambda>a.
       let m_cal = 1 + a;
           et_sc = map2 (\<lambda>s c. cat_et s * c) gs sigma_critic;
           ex_sc = map2 (\<lambda>s c. cat_ex s * c) gs sigma_critic
       in
     and_then (np_average et_sc weight) (\<lambda>t.
     and_then (fdiv t m_cal) (\<lambda>shear_i.
     and_then (np_average ex_sc weight) (\<lambda>x.
     and_then (fdiv x m_cal) (\<lambda>cero_i.
       let stat_error_num = sum_list (map2 (\<lambda>w c. (0.25 * w * c)\<^sup>2) weight sigma_critic);
           stat_error_den = (sum_list weight)\<^sup>2
       in
     and_then (fdiv stat_error_num stat_error_den) (\<lambda>q.
     and_then (fdiv (sqrt q) m_cal) (\<lambda>stat_i.
       Inr \<lparr>b_m_cal = m_cal, b_shear = shear_i, b_cero = cero_i, b_stat_error = stat_i,
            b_et_sc = et_sc, b_ex_sc = ex_sc, b_weight = weight\<rparr>)))))))))"

text \<open>The body of the loop of line 60 for bin \<open>i\<close>.\<close>

definition Profile_bin ::
  "'g rng \<Rightarrow> source list \<Rightarrow> (error + real) list \<Rightarrow> int list \<Rightarrow> bool \<Rightarrow> int \<Rightarrow>
   nat \<Rightarrow> profile \<Rightarrow> 'g \<Rightarrow> (error + profile) \<times> 'g" where
  "Profile_bin r cat sigma_critic digit boot_flag boot_n i p g =
     (let cnt = length (masked digit i cat);
          p1 = p\<lparr>N := (N p)[i := cnt]\<rparr>
      in if cnt = 0 then (Inr p1, g)
         else
           (case bin_statistics (masked digit i cat) (masked digit i sigma_critic) of
              Inl e \<Rightarrow> (Inl e, g)
            | Inr b \<Rightarrow>
               (let p2 = p1\<lparr>shear := (shear p1)[i := b_shear b],
                            cero := (cero p1)[i := b_cero b],
                            stat_error := (stat_error p1)[i := b_stat_error b]\<rparr>
                in if boot_flag
                   then
                     (case boot_error r (b_et_sc b) (b_ex_sc b) (b_weight b) boot_n g of
                        (Inl e, g1) \<Rightarrow> (Inl e, g1)
                      | (Inr (err_t, err_x), g1) \<Rightarrow>
                          (and_then (fdiv err_t (b_m_cal b)) (\<lambda>se.
                           and_then (fdiv err_x (b_m_cal b)) (\<lambda>ce.
                             Inr (p2\<lparr>shear_error := (shear_error p2)[i := se],
                                     cero_error := (cero_error p2)[i := ce]\<rparr>))), g1))
                   else (Inr p2, g))))"

fun Profile_loop ::
  "'g rng \<Rightarrow> source list \<Rightarrow> (error + real) list \<Rightarrow> int list \<Rightarrow> bool \<Rightarrow> int \<Rightarrow>
   nat list \<Rightarrow> profile \<Rightarrow> 'g \<Rightarrow> (error + profile) \<times> 'g" where
  "Profile_loop r cat sigma_critic digit boot_flag boot_n [] p g = (Inr p, g)"
| "Profile_loop r cat sigma_critic digit boot_flag boot_n (i # rest) p g =
     (case Profile_bin r cat sigma_critic digit boot_flag boot_n i p g of
        (Inl e, g1) \<Rightarrow> (Inl e, g1)
      | (Inr p1, g1) \<Rightarrow> Profile_loop r cat sigma_critic digit boot_flag boot_n rest p1 g1)"

text \<open>Lines 37-45: the bin edges.\<close>

definition make_bins :: "bins_arg \<Rightarrow> string \<Rightarrow> real \<Rightarrow> real \<Rightarrow> error + real list" where
  "make_bins bins_a space rin_hMpc rout_hMpc =
     (case bins_a of
        BinsInt n \<Rightarrow>
          (if space = ''log'' then geomspace rin_hMpc rout_hMpc (n + 1)
           else linspace rin_hMpc rout_hMpc (n + 1))
      | BinsArray bs \<Rightarrow> (if bs = [] then Inl IndexError else Inr bs))"

text \<open>Line 33: the projected distance of one galaxy in Mpc/h; \<open>h\<close> is \<open>cosmo.h\<close>.\<close>

definition dist_hMpc :: "real \<Rightarrow> source \<Rightarrow> real" where
  "dist_hMpc h s = cat_dist s * 3600 * set_Mpc_scale (cat_DL s) * h"

text \<open>Lines 50-58: the arrays before the loop.\<close>

definition Profile_zeros :: "real list \<Rightarrow> nat \<Rightarrow> profile" where
  "Profile_zeros bs nbin =
     \<lparr>bins = bs,
      r_hMpc = map2 (\<lambda>a b. 0.5 * (a + b)) (butlast bs) (tl bs),
      shear = replicate nbin 0, cero = replicate nbin 0,
      shear_error = replicate nbin 0, cero_error = replicate nbin 0,
      stat_error = replicate nbin 0, N = replicate nbin 0\<rparr>"

text \<open>Line 27 and line 48, for the whole catalog.\<close>

definition sigma_critic_of :: "source list \<Rightarrow> (error + real) list" where
  "sigma_critic_of cat = map (\<lambda>s. set_sigma_critic (cat_DL s) (cat_DS s) (cat_DLS s)) cat"

definition digit_of :: "real \<Rightarrow> source list \<Rightarrow> real list \<Rightarrow> error + int list" where
  "digit_of h cat bs =
     and_then (digitize (map (dist_hMpc h) cat) bs) (\<lambda>dg. Inr (map (\<lambda>d. d - 1) dg))"

text \<open>
  \<open>Profile.__init__\<close> (lines 20-79). \<open>g\<close> is the state of numpy's global generator when
  the constructor is called; the result carries the state when it returns.
\<close>

definition Profile_init ::
  "'g rng \<Rightarrow> source list \<Rightarrow> real \<Rightarrow> real \<Rightarrow> bins_arg \<Rightarrow> string \<Rightarrow> real \<Rightarrow> bool \<Rightarrow> int \<Rightarrow>
   'g \<Rightarrow> (error + profile) \<times> 'g" where
  "Profile_init r cat rin_hMpc rout_hMpc bins_a space h boot_flag boot_n g =
     (let sigma_critic = sigma_critic_of cat
      in case make_bins bins_a space rin_hMpc rout_hMpc of
           Inl e \<Rightarrow> (Inl e, g)
         | Inr bs \<Rightarrow>
            (let nbin = int (length bs) - 1
             in case digit_of h cat bs of
                  Inl e \<Rightarrow> (Inl e, g)
                | Inr digit \<Rightarrow>
                   (if nbin < 0 then (Inl ValueError, g)
                    else Profile_loop r cat sigma_critic digit boot_flag boot_n
                           [0..<nat nbin] (Profile_zeros bs (nat nbin)) g)))"

text \<open>The weighted average as the specification words it.\<close>

definition weighted_average :: "real list \<Rightarrow> real list \<Rightarrow> real" where
  "weighted_average a w = sum_list (map2 (*) a w) / sum_list w"

text \<open>
  A generator to run the model on concrete inputs: every draw is the index 0.
\<close>

definition example_rng :: "nat rng" where
  "example_rng = \<lparr>rng_seed = (\<lambda>s. s), rng_randint = (\<lambda>g high size. (replicate size 0, Suc g))\<rparr>"

text \<open>
  A galaxy to run the model on: 10 arcsec from the lens, with the distances, weight and
  ellipticity of the specification's one-galaxy scenario.
\<close>

definition example_source :: source where
  "example_source =
     \<lparr>cat_dist = 1 / 360, cat_et = 1 / 10, cat_ex = 0, cat_m = 0, cat_weight = 1,
      cat_DL = 1000, cat_DS = 1000, cat_DLS = 500\<rparr>"

text \<open>Row \<open>i\<close> of the per-bin arrays of a profile, and the lengths of these arrays.\<close>

definition row :: "profile \<Rightarrow> nat \<Rightarrow> real \<times> real \<times> real \<times> real \<times> real \<times> nat" where
  "row p i =
     (shear p ! i, cero p ! i, shear_error p ! i, cero_error p ! i, stat_error p ! i, N p ! i)"

definition lens :: "profile \<Rightarrow> nat \<times> nat \<times> nat \<times> nat \<times> nat \<times> nat" where
  "lens p =
     (length (shear p), length (cero p), length (shear_error p), length (cero_error p),
      length (stat_error p), length (N p))"

section \<open>shear/profile.py: Profile.write\_to\<close>

text \<open>
  The names bound at module level in shear/profile.py when \<open>write_to\<close> runs: the imports
  of lines 1-9, the constants of lines 11-15 and the class. A name that is neither local,
  nor here, nor a Python builtin raises NameError when it is evaluated.
\<close>

definition module_globals :: "string list" where
  "module_globals =
     [''os'', ''platform'', ''np'', ''pd'', ''fits'', ''Table'', ''bootstrap'',
      ''NumpyRNGContext'', ''LambdaCDM'', ''gentools'', ''cosmo'', ''cvel'', ''G'', ''pc'',
      ''Msun'', ''Profile'']"

definition lookup_global :: "string \<Rightarrow> error + unit" where
  "lookup_global name = (if name \<in> set module_globals then Inr () else Inl NameError)"

definition nl :: string where
  "nl = [CHR 0x0A]"

definition ljust :: "nat \<Rightarrow> string \<Rightarrow> string" where
  "ljust w s = s @ replicate (w - length s) CHR '' ''"

fun join :: "string \<Rightarrow> string list \<Rightarrow> string" where
  "join d [] = []"
| "join d [s] = s"
| "join d (s # t # ss) = s @ d @ join d (t # ss)"

text \<open>
  The files are a map from names to contents. \<open>open(file, 'a')\<close> creates a missing file;
  the \<open>with\<close> block closes the file and so keeps what was written, also when its body
  raises. The header dictionary is given as the list of its items, each value by its
  \<open>str()\<close>. \<open>now\<close> is the text the clock and \<open>strftime\<close> would give and \<open>fmt\<close> is the
  \<open>%12.6f\<close> conversion of \<open>np.savetxt\<close>: both are outside the repository.
\<close>

type_synonym files = "string \<Rightarrow> string option"

definition header_block :: "(string \<times> string) list option \<Rightarrow> string" where
  "header_block header =
     ''# '' @ replicate 48 CHR ''-'' @ nl
     @ ''# Lensing profile '' @ nl
     @ (case header of None \<Rightarrow> []
        | Some items \<Rightarrow> concat (map (\<lambda>(key, v). ''# '' @ ljust 14 key @ '' = '' @ v @ nl) items))
     @ ''# '' @ nl"

definition table_rows :: "(real \<Rightarrow> string) \<Rightarrow> profile \<Rightarrow> error + string" where
  "table_rows fmt self =
     (let cols = [r_hMpc self, shear self, shear_error self, cero self, cero_error self,
                  stat_error self]
      in if \<forall>c \<in> set cols. length c = length (r_hMpc self)
         then Inr (concat (map (\<lambda>i. join '' '' (map (\<lambda>c. fmt (c ! i)) cols) @ nl)
                     [0..<length (r_hMpc self)]))
         else Inl ValueError)"

definition write_to ::
  "string \<Rightarrow> (real \<Rightarrow> string) \<Rightarrow> profile \<Rightarrow> string \<Rightarrow> (string \<times> string) list option \<Rightarrow> bool \<Rightarrow>
   files \<Rightarrow> (error + unit) \<times> files" where
  "write_to now fmt self file header colnames fs =
     (let f0 = (case fs file of None \<Rightarrow> [] | Some c \<Rightarrow> c);
          f1 = f0 @ header_block header
      in case lookup_global ''datetime'' of
           Inl e \<Rightarrow> (Inl e, fs(file \<mapsto> f1))
         | Inr u \<Rightarrow>
            (let f2 = f1 @ ''# '' @ now @ nl @ ''# '' @ replicate 48 CHR ''-'' @ nl;
                 C = (if colnames then '' '' else ''# '');
                 f3 = f2 @ C @ ''r_hMpc, shear, shear_error, cero, cero_error, stat_error '' @ nl
             in case table_rows fmt self of
                  Inl e \<Rightarrow> (Inl e, fs(file \<mapsto> f3))
                | Inr rows \<Rightarrow> (Inr (), fs(file \<mapsto> f3 @ rows))))"

text \<open>The lines of a text: the pieces between line feeds.\<close>

fun lines_of :: "string \<Rightarrow> string list" where
  "lines_of [] = [[]]"
| "lines_of (c # cs) =
     (if c = CHR 0x0A then [] # lines_of cs
      else (case lines_of cs of l # ls \<Rightarrow> (c # l) # ls | [] \<Rightarrow> [[c]]))"

section \<open>kappa/map.py: class KappaMap\<close>

text \<open>
  A 2-D array is the list of its rows. \<open>shear.ShearMap\<close> is not part of the modelled files:
  the constructor is a parameter, and the record holds the attributes \<open>px\<close>, \<open>py\<close>, \<open>e1\<close>, \<open>e2\<close>
  of its result.
\<close>

record shear_map =
  sm_px :: "real list list"
  sm_py :: "real list list"
  sm_e1 :: "real list list"
  sm_e2 :: "real list list"

record kappa_map =
  shear_map :: shear_map
  px :: "real list list"
  py :: "real list list"
  bin_size :: "real \<times> real"
  kappa :: "complex list list"

text \<open>\<open>a[i, j]\<close>: IndexError out of range.\<close>

definition index2 :: "'a list list \<Rightarrow> nat \<Rightarrow> nat \<Rightarrow> error + 'a" where
  "index2 a i j =
     (if i < length a \<and> j < length (a ! i) then Inr (a ! i ! j) else Inl IndexError)"

text \<open>
  An arithmetic operation on two 2-D arrays, element by element. numpy raises ValueError
  when the shapes do not fit; that it stretches an axis of length 1 is not modelled, every
  difference of shape is the ValueError.
\<close>

definition elementwise ::
  "('a \<Rightarrow> 'b \<Rightarrow> 'c) \<Rightarrow> 'a list list \<Rightarrow> 'b list list \<Rightarrow> error + 'c list list" where
  "elementwise f a b =
     (if map length a = map length b then Inr (map2 (map2 f) a b) else Inl ValueError)"

text \<open>
  \<open>fftpack.fftfreq(n, d)\<close>: the sample frequencies \<open>0, 1, ..., (n-1) div 2, -(n div 2), ..., -1\<close>,
  each times \<open>1/(n*d)\<close>.
\<close>

definition fftfreq :: "int \<Rightarrow> real \<Rightarrow> error + real list" where
  "fftfreq n d =
     (if n < 0 then Inl ValueError
      else if n = 0 then Inr []
      else if d = 0 then Inl NonFinite
      else
        (let val = 1 / (real_of_int n * d);
             results = map real_of_int ([0..(n - 1) div 2] @ [- (n div 2)..- 1])
         in Inr (map (\<lambda>k. k * val) results)))"

text \<open>
  \<open>fftpack.fft2\<close> and \<open>fftpack.ifft2\<close> on an \<open>n0 \<times> n1\<close> array, by the sums that define the
  discrete Fourier transform.
\<close>

definition fft2 :: "complex list list \<Rightarrow> complex list list" where
  "fft2 x =
     (let n0 = length x; n1 = (if x = [] then 0 else length (hd x))
      in map (\<lambda>k0. map (\<lambda>k1.
           sum_list (map (\<lambda>m0. sum_list (map (\<lambda>m1.
             x ! m0 ! m1
             * cis (- (2 * pi * (real k0 * real m0 / real n0 + real k1 * real m1 / real n1))))
             [0..<n1])) [0..<n0]))
           [0..<n1]) [0..<n0])"

definition ifft2 :: "complex list list \<Rightarrow> complex list list" where
  "ifft2 y =
     (let n0 = length y; n1 = (if y = [] then 0 else length (hd y))
      in map (\<lambda>j0. map (\<lambda>j1.
           sum_list (map (\<lambda>k0. sum_list (map (\<lambda>k1.
             y ! k0 ! k1
             * cis (2 * pi * (real j0 * real k0 / real n0 + real j1 * real k1 / real n1)))
             [0..<n1])) [0..<n0])
           / complex_of_real (real n0 * real n1))
           [0..<n1]) [0..<n0])"

text \<open>
  \<open>KappaMap._conjugate_inversion_kernel\<close> (lines 59-71). Line 69 divides at every grid
  point, also at \<open>(0, 0)\<close> where both frequencies are zero, and line 70 overwrites that
  entry. The quotient is written with the division of the reals; that no other divisor is
  zero is proved below.
\<close>

definition conjugate_inversion_kernel :: "real \<times> real \<Rightarrow> int \<Rightarrow> error + complex list list" where
  "conjugate_inversion_kernel bsize nbins =
     (let dx = fst bsize; dy = snd bsize
      in and_then (fftfreq nbins dx) (\<lambda>k_x0.
         and_then (fftfreq nbins dy) (\<lambda>k_y0.
           let T_Dconj = map (\<lambda>kx. map (\<lambda>ky.
                 Complex (kx\<^sup>2 - ky\<^sup>2) (- 2 * kx * ky) / complex_of_real (kx\<^sup>2 + ky\<^sup>2))
                 k_y0) k_x0
           in and_then (index2 T_Dconj 0 0) (\<lambda>u.
                Inr (T_Dconj [0 := (T_Dconj ! 0) [0 := 0]])))))"

text \<open>
  \<open>KappaMap.__init__\<close> (lines 28-56). \<open>data\<close> and \<open>nbins\<close> may be None. With \<open>nbins\<close> None,
  line 35 evaluates the name \<open>nGalaxies\<close>, which nothing binds.
\<close>

definition KappaMap_init ::
  "('d \<Rightarrow> int \<Rightarrow> error + shear_map) \<Rightarrow> 'd option \<Rightarrow> int option \<Rightarrow> error + kappa_map" where
  "KappaMap_init ShearMap data nbins_arg =
     (case data of None \<Rightarrow> Inl ValueError
      | Some dat \<Rightarrow>
         (case nbins_arg of None \<Rightarrow> Inl NameError
          | Some nbins \<Rightarrow>
             and_then (ShearMap dat nbins) (\<lambda>sm.
               let px_v = sm_px sm; py_v = sm_px sm
               in
             and_then (index2 px_v 1 0) (\<lambda>x1.
             and_then (index2 px_v 0 0) (\<lambda>x0.
             and_then (index2 py_v 1 0) (\<lambda>y1.
             and_then (index2 py_v 0 0) (\<lambda>y0.
               let dx = x1 - x0; dy = y1 - y0; bsize = (dx, dy)
               in
             and_then (elementwise Complex (sm_e1 sm) (sm_e2 sm)) (\<lambda>gam.
               let T_shear = fft2 gam
               in
             and_then (conjugate_inversion_kernel bsize nbins) (\<lambda>T_Dconj.
             and_then (elementwise (*) T_shear T_Dconj) (\<lambda>T_kappa.
               Inr \<lparr>shear_map = sm, px = px_v, py = py_v, bin_size = bsize,
                    kappa = ifft2 T_kappa\<rparr>))))))))))"

text \<open>The E-mode and B-mode images, as lines 105-106 take them from \<open>kappa\<close>.\<close>

definition kappa_E :: "kappa_map \<Rightarrow> real list list" where
  "kappa_E k = map (map Re) (kappa k)"

definition kappa_B :: "kappa_map \<Rightarrow> real list list" where
  "kappa_B k = map (map Im) (kappa k)"

subsection \<open>The Kaiser-Squires inversion as the specification words it\<close>

text \<open>
  The forward and inverse discrete Fourier transforms of a function on an \<open>n \<times> n\<close> grid, and
  the convergence at grid point \<open>(j, k)\<close>: the inverse transform of the product of the
  transformed shear \<open>e1 + i e2\<close> with the kernel \<open>D\<close>.
\<close>

definition dft2_spec :: "nat \<Rightarrow> (nat \<Rightarrow> nat \<Rightarrow> complex) \<Rightarrow> nat \<Rightarrow> nat \<Rightarrow> complex" where
  "dft2_spec n f u v =
     (\<Sum>a<n. \<Sum>b<n. f a b * cis (- (2 * pi * (real u * real a + real v * real b) / real n)))"

definition idft2_spec :: "nat \<Rightarrow> (nat \<Rightarrow> nat \<Rightarrow> complex) \<Rightarrow> nat \<Rightarrow> nat \<Rightarrow> complex" where
  "idft2_spec n F j k =
     (\<Sum>u<n. \<Sum>v<n. F u v * cis (2 * pi * (real j * real u + real k * real v) / real n))
     / complex_of_real ((real n)\<^sup>2)"

definition kaiser_squires_spec ::
  "nat \<Rightarrow> (nat \<Rightarrow> nat \<Rightarrow> real) \<Rightarrow> (nat \<Rightarrow> nat \<Rightarrow> real) \<Rightarrow> (nat \<Rightarrow> nat \<Rightarrow> complex) \<Rightarrow>
   nat \<Rightarrow> nat \<Rightarrow> complex" where
  "kaiser_squires_spec n e1 e2 D j k =
     idft2_spec n (\<lambda>u v. dft2_spec n (\<lambda>a b. Complex (e1 a b) (e2 a b)) u v * D u v) j k"

text \<open>
  A shear map to run the model on: a 2 x 2 grid whose \<open>px\<close> has spacing 1 and whose \<open>py\<close>
  has spacing 5 along the same axis.
\<close>

definition example_shear_map :: shear_map where
  "example_shear_map =
     \<lparr>sm_px = [[0, 0], [1, 1]], sm_py = [[0, 0], [5, 5]],
      sm_e1 = [[1, 0], [0, 0]], sm_e2 = [[0, 0], [0, 1]]\<rparr>"

section \<open>Properties\<close>

subsection \<open>The loop over the bins\<close>

lemma boot_error_state: "boot_error r sv cv w nb g = (x, g') \<Longrightarrow> g' = g"
  by (auto simp: boot_error_def Let_def split: prod.splits)

lemma Profile_bin_state: "Profile_bin r cat sc digit bf bn i p g = (x, g') \<Longrightarrow> g' = g"
  by (auto simp: Profile_bin_def Let_def split: sum.splits prod.splits if_splits
           dest: boot_error_state)

lemma Profile_loop_state: "Profile_loop r cat sc digit bf bn is p g = (x, g') \<Longrightarrow> g' = g"
proof (induction "is" arbitrary: p)
  case Nil
  then show ?case by simp
next
  case (Cons i rest)
  then show ?case
    by (auto split: sum.splits prod.splits dest: Profile_bin_state)
qed

lemma Profile_bin_frame:
  assumes "Profile_bin r cat sc digit bf bn i p g = (Inr p', g')"
  shows "lens p' = lens p" and "bins p' = bins p" and "r_hMpc p' = r_hMpc p"
    and "j \<noteq> i \<Longrightarrow> row p' j = row p j"
  using assms
  by (auto simp: Profile_bin_def Let_def lens_def row_def and_then_def fdiv_def
           split: sum.splits prod.splits if_splits)

lemma Profile_loop_frame:
  assumes "Profile_loop r cat sc digit bf bn is p g = (Inr q, g')"
  shows "lens q = lens p \<and> bins q = bins p \<and> r_hMpc q = r_hMpc p
         \<and> (j \<notin> set is \<longrightarrow> row q j = row p j)"
  using assms
proof (induction "is" arbitrary: p g)
  case Nil
  then show ?case by simp
next
  case (Cons i rest)
  from Cons.prems obtain p1 g1 where
    b: "Profile_bin r cat sc digit bf bn i p g = (Inr p1, g1)" and
    l: "Profile_loop r cat sc digit bf bn rest p1 g1 = (Inr q, g')"
    by (auto split: sum.splits prod.splits)
  from Cons.IH [OF l] Profile_bin_frame [OF b] show ?case by auto
qed

lemma Profile_loop_at:
  assumes "Profile_loop r cat sc digit bf bn is p g = (Inr q, g')"
    and "distinct is" and "i \<in> set is"
  shows "\<exists>p0 p1. Profile_bin r cat sc digit bf bn i p0 g = (Inr p1, g)
           \<and> row p0 i = row p i \<and> lens p0 = lens p \<and> row q i = row p1 i"
  using assms
proof (induction "is" arbitrary: p g)
  case Nil
  then show ?case by simp
next
  case (Cons k rest)
  from Cons.prems(1) obtain p1 g1 where
    b: "Profile_bin r cat sc digit bf bn k p g = (Inr p1, g1)" and
    l: "Profile_loop r cat sc digit bf bn rest p1 g1 = (Inr q, g')"
    by (auto split: sum.splits prod.splits)
  have g1: "g1 = g" using Profile_bin_state [OF b] .
  show ?case
  proof (cases "i = k")
    case True
    with Cons.prems(2) have "i \<notin> set rest" by simp
    with Profile_loop_frame [OF l, of i] have "row q i = row p1 i" by simp
    with b g1 True show ?thesis by blast
  next
    case False
    with Cons.prems have d: "distinct rest" and m: "i \<in> set rest" by auto
    from Cons.IH [OF l d m] g1 obtain p0 p2 where
      "Profile_bin r cat sc digit bf bn i p0 g = (Inr p2, g)"
      "row p0 i = row p1 i" "lens p0 = lens p1" "row q i = row p2 i" by auto
    with Profile_bin_frame [OF b] False show ?thesis by metis
  qed
qed


lemma Profile_init_Inr:
  assumes "Profile_init r cat rin rout ba space h bf bn g = (Inr p, g')"
  obtains bs digit where "make_bins ba space rin rout = Inr bs"
    and "digit_of h cat bs = Inr digit" and "0 < length bs"
    and "Profile_loop r cat (sigma_critic_of cat) digit bf bn [0..<length bs - 1]
           (Profile_zeros bs (length bs - 1)) g = (Inr p, g')"
proof -
  from assms obtain bs where mb: "make_bins ba space rin rout = Inr bs"
    by (auto simp: Profile_init_def split: sum.splits)
  with assms obtain digit where dg: "digit_of h cat bs = Inr digit"
    by (auto simp: Profile_init_def Let_def split: sum.splits)
  from assms mb dg have nb: "\<not> int (length bs) - 1 < 0"
    by (auto simp: Profile_init_def Let_def split: if_splits)
  then have pos: "0 < length bs" by auto
  have "nat (int (length bs) - 1) = length bs - 1" by auto
  with assms mb dg nb have
    "Profile_loop r cat (sigma_critic_of cat) digit bf bn [0..<length bs - 1]
           (Profile_zeros bs (length bs - 1)) g = (Inr p, g')"
    by (simp add: Profile_init_def Let_def)
  with mb dg pos show thesis using that by blast
qed

lemma Profile_bin_empty:
  "masked digit i cat = [] \<Longrightarrow>
   Profile_bin r cat sc digit bf bn i p g = (Inr (p\<lparr>N := (N p)[i := 0]\<rparr>), g)"
  by (simp add: Profile_bin_def)

lemma row_zeros: "i < n \<Longrightarrow> row (Profile_zeros bs n) i = (0, 0, 0, 0, 0, 0)"
  by (simp add: row_def Profile_zeros_def)

lemma lens_zeros: "lens (Profile_zeros bs n) = (n, n, n, n, n, n)"
  by (simp add: lens_def Profile_zeros_def)

text \<open>
  C6. A bin with no member galaxy (the mask of line 61 selects nothing) is left at its
  defaults: if construction returns a profile, the tangential shear, the cross shear, both
  bootstrap errors and the analytic statistical error of the bin are exactly 0 and its
  count is 0; and the iteration of the loop for that bin raises nothing, whatever the
  arrays hold when it starts: it only stores the count 0.
\<close>

theorem empty_bin_zero:
  assumes init: "Profile_init r cat rin rout ba space h bf bn g = (Inr p, g')"
    and dg: "digit_of h cat (bins p) = Inr digit"
    and i: "i < length (bins p) - 1"
    and empty: "masked digit i cat = []"
  shows "shear p ! i = 0 \<and> cero p ! i = 0 \<and> shear_error p ! i = 0 \<and> cero_error p ! i = 0
         \<and> stat_error p ! i = 0 \<and> N p ! i = 0
         \<and> (\<forall>p0. Profile_bin r cat (sigma_critic_of cat) digit bf bn i p0 g
                   = (Inr (p0\<lparr>N := (N p0)[i := 0]\<rparr>), g))"
proof -
  from init obtain bs digit' where
    dg': "digit_of h cat bs = Inr digit'" and
    lp: "Profile_loop r cat (sigma_critic_of cat) digit' bf bn [0..<length bs - 1]
           (Profile_zeros bs (length bs - 1)) g = (Inr p, g')"
    by (rule Profile_init_Inr)
  have bs: "bins p = bs"
    using Profile_loop_frame [OF lp] by (simp add: Profile_zeros_def)
  with dg dg' have d: "digit' = digit" by simp
  from i bs have mem: "i \<in> set [0..<length bs - 1]" by simp
  from Profile_loop_at [OF lp _ mem] obtain p0 p1 where
    b: "Profile_bin r cat (sigma_critic_of cat) digit' bf bn i p0 g = (Inr p1, g)" and
    r0: "row p0 i = row (Profile_zeros bs (length bs - 1)) i" and
    l0: "lens p0 = lens (Profile_zeros bs (length bs - 1))" and
    rq: "row p i = row p1 i"
    by auto
  from b empty d have p1: "p1 = p0\<lparr>N := (N p0)[i := 0]\<rparr>"
    by (simp add: Profile_bin_empty)
  from i bs have "i < length bs - 1" by simp
  with r0 l0 [unfolded lens_zeros]
  have "row p0 i = (0, 0, 0, 0, 0, 0)" and "length (N p0) = length bs - 1"
    by (simp_all add: row_zeros lens_def)
  with p1 rq \<open>i < length bs - 1\<close> have "row p i = (0, 0, 0, 0, 0, 0)"
    by (simp add: row_def)
  then show ?thesis using empty by (simp add: row_def Profile_bin_empty)
qed


theorem empty_bin_zero_witness:
  "Profile_init example_rng
     [\<lparr>cat_dist = 0, cat_et = 1, cat_ex = 0, cat_m = 0, cat_weight = 1,
       cat_DL = 1000, cat_DS = 1000, cat_DLS = 500\<rparr>] 0.1 10 (BinsArray [1, 2, 3]) ''log'' 0.7
     True 100 5 = (Inr (Profile_zeros [1, 2, 3] 2), 5)
   \<and> shear (Profile_zeros [1, 2, 3] 2) ! 1 = 0 \<and> cero (Profile_zeros [1, 2, 3] 2) ! 1 = 0
   \<and> shear_error (Profile_zeros [1, 2, 3] 2) ! 1 = 0
   \<and> cero_error (Profile_zeros [1, 2, 3] 2) ! 1 = 0
   \<and> stat_error (Profile_zeros [1, 2, 3] 2) ! 1 = 0 \<and> N (Profile_zeros [1, 2, 3] 2) ! 1 = 0"
proof -
  let ?cat = "[\<lparr>cat_dist = 0, cat_et = 1, cat_ex = 0, cat_m = 0, cat_weight = 1,
       cat_DL = 1000, cat_DS = 1000, cat_DLS = 500\<rparr>]"
  have dg: "digit_of 0.7 ?cat [1, 2, 3] = Inr [- 1]"
    by (simp add: digit_of_def digitize_def monotonicity_def and_then_def dist_hMpc_def
          searchsorted_right_def)
  have init: "Profile_init example_rng ?cat 0.1 10 (BinsArray [1, 2, 3]) ''log'' 0.7 True 100 5
      = (Inr (Profile_zeros [1, 2, 3] 2), 5)"
    by (simp add: Profile_init_def make_bins_def dg Profile_bin_def masked_def
          Profile_zeros_def numeral_2_eq_2)
  have dg': "digit_of 0.7 ?cat (bins (Profile_zeros [1, 2, 3] 2)) = Inr [- 1]"
    using dg by (simp add: Profile_zeros_def)
  have i: "1 < length (bins (Profile_zeros [1, 2, 3] 2)) - 1"
    by (simp add: Profile_zeros_def)
  have empty: "masked [- 1] 1 ?cat = []"
    by (simp add: masked_def)
  from empty_bin_zero [OF init dg' i empty] init show ?thesis by simp
qed

subsection \<open>The statistics of a bin\<close>

lemma sequence_Inr: "sequence rs = Inr xs \<Longrightarrow> rs = map Inr xs"
  by (induction rs arbitrary: xs) (auto split: sum.splits)

lemma sequence_fdiv:
  "sequence (map2 (\<lambda>s c. fdiv (f s) (k c)) gs sc) = Inr w \<Longrightarrow>
   w = map2 (\<lambda>s c. f s / k c) gs sc"
proof (induction gs arbitrary: sc w)
  case Nil
  then show ?case by simp
next
  case (Cons s gs)
  then show ?case
    by (cases sc) (auto simp: fdiv_def split: sum.splits if_splits)
qed

lemma masked_map: "masked digit i (map f a) = map f (masked digit i a)"
proof (induction digit arbitrary: a)
  case Nil
  then show ?case by (simp add: masked_def)
next
  case (Cons d ds)
  then show ?case by (cases a) (auto simp: masked_def)
qed

lemma np_average_Inr:
  "np_average a w = Inr v \<Longrightarrow> sum_list w \<noteq> 0 \<and> v = weighted_average a w"
  by (auto simp: np_average_def weighted_average_def Let_def split: if_splits)

lemma fdiv_Inr: "fdiv a b = Inr v \<Longrightarrow> b \<noteq> 0 \<and> v = a / b"
  by (auto simp: fdiv_def split: if_splits)

lemma bin_statistics_Inr:
  assumes "bin_statistics gs scs = Inr b"
  shows "\<exists>sc weight m_cal. scs = map Inr sc
         \<and> weight = map2 (\<lambda>s c. cat_weight s / c\<^sup>2) gs sc
         \<and> m_cal = 1 + weighted_average (map cat_m gs) weight
         \<and> sum_list weight \<noteq> 0 \<and> m_cal \<noteq> 0 \<and> b_m_cal b = m_cal \<and> b_weight b = weight
         \<and> b_et_sc b = map2 (\<lambda>s c. cat_et s * c) gs sc
         \<and> b_ex_sc b = map2 (\<lambda>s c. cat_ex s * c) gs sc
         \<and> b_shear b = weighted_average (map2 (\<lambda>s c. cat_et s * c) gs sc) weight / m_cal
         \<and> b_cero b = weighted_average (map2 (\<lambda>s c. cat_ex s * c) gs sc) weight / m_cal
         \<and> b_stat_error b =
             sqrt (sum_list (map2 (\<lambda>w c. (0.25 * w * c)\<^sup>2) weight sc) / (sum_list weight)\<^sup>2)
             / m_cal"
proof -
  from assms obtain sc where sc: "sequence scs = Inr sc"
    by (auto simp: bin_statistics_def and_then_def split: sum.splits)
  from assms sc obtain weight where
    w: "sequence (map2 (\<lambda>s c. fdiv (cat_weight s) (c\<^sup>2)) gs sc) = Inr weight"
    by (auto simp: bin_statistics_def and_then_def split: sum.splits)
  have w': "weight = map2 (\<lambda>s c. cat_weight s / c\<^sup>2) gs sc"
    using sequence_fdiv [OF w] .
  define m_cal where "m_cal = 1 + weighted_average (map cat_m gs) weight"
  from assms sc w have
    "sum_list weight \<noteq> 0 \<and> m_cal \<noteq> 0 \<and> b_m_cal b = m_cal \<and> b_weight b = weight
         \<and> b_et_sc b = map2 (\<lambda>s c. cat_et s * c) gs sc
         \<and> b_ex_sc b = map2 (\<lambda>s c. cat_ex s * c) gs sc
         \<and> b_shear b = weighted_average (map2 (\<lambda>s c. cat_et s * c) gs sc) weight / m_cal
         \<and> b_cero b = weighted_average (map2 (\<lambda>s c. cat_ex s * c) gs sc) weight / m_cal
         \<and> b_stat_error b =
             sqrt (sum_list (map2 (\<lambda>w c. (0.25 * w * c)\<^sup>2) weight sc) / (sum_list weight)\<^sup>2)
             / m_cal"
    unfolding m_cal_def
    by (auto simp: bin_statistics_def and_then_def Let_def
             split: sum.splits dest!: np_average_Inr fdiv_Inr)
  with sequence_Inr [OF sc] w' m_cal_def show ?thesis by blast
qed


lemma Profile_init_bin:
  assumes init: "Profile_init r cat rin rout ba space h bf bn g = (Inr p, g')"
    and dg: "digit_of h cat (bins p) = Inr digit"
    and i: "i < length (bins p) - 1"
  obtains p0 p1 where
    "Profile_bin r cat (sigma_critic_of cat) digit bf bn i p0 g = (Inr p1, g)"
    and "row p0 i = (0, 0, 0, 0, 0, 0)"
    and "lens p0 = (length (bins p) - 1, length (bins p) - 1, length (bins p) - 1,
                    length (bins p) - 1, length (bins p) - 1, length (bins p) - 1)"
    and "row p i = row p1 i"
proof -
  from init obtain bs digit' where
    dg': "digit_of h cat bs = Inr digit'" and
    lp: "Profile_loop r cat (sigma_critic_of cat) digit' bf bn [0..<length bs - 1]
           (Profile_zeros bs (length bs - 1)) g = (Inr p, g')"
    by (rule Profile_init_Inr)
  have bs: "bins p = bs"
    using Profile_loop_frame [OF lp] by (simp add: Profile_zeros_def)
  with dg dg' have d: "digit' = digit" by simp
  from i bs have mem: "i \<in> set [0..<length bs - 1]" by simp
  from Profile_loop_at [OF lp _ mem] obtain p0 p1 where
    b: "Profile_bin r cat (sigma_critic_of cat) digit' bf bn i p0 g = (Inr p1, g)" and
    r0: "row p0 i = row (Profile_zeros bs (length bs - 1)) i" and
    l0: "lens p0 = lens (Profile_zeros bs (length bs - 1))" and
    rq: "row p i = row p1 i"
    by auto
  from i bs r0 have "row p0 i = (0, 0, 0, 0, 0, 0)" by (simp add: row_zeros)
  with b d l0 rq bs show thesis using that by (simp add: lens_zeros)
qed

lemma Profile_bin_nonempty:
  assumes b: "Profile_bin r cat sc digit bf bn i p0 g = (Inr p1, g')"
    and ne: "masked digit i cat \<noteq> []"
    and l: "lens p0 = (n, n, n, n, n, n)" and i: "i < n"
  shows "\<exists>b. bin_statistics (masked digit i cat) (masked digit i sc) = Inr b
           \<and> shear p1 ! i = b_shear b \<and> cero p1 ! i = b_cero b
           \<and> stat_error p1 ! i = b_stat_error b
           \<and> N p1 ! i = length (masked digit i cat)"
  using assms
  by (auto simp: Profile_bin_def Let_def lens_def and_then_def
           split: sum.splits prod.splits if_splits dest!: fdiv_Inr)

text \<open>
  C2. For every non-empty radial bin of a constructed profile: each member galaxy has a
  finite critical density \<open>sigma\<close>, its weight is the catalog weight divided by the square
  of \<open>sigma\<close>, the calibration factor is 1 plus the weighted average of the catalog \<open>m\<close>,
  and the tangential shear of the bin is the weighted average of \<open>et * sigma\<close> divided by
  the calibration factor; the cross shear is the same with \<open>ex\<close>. The weights do not sum
  to zero and the calibration factor is not zero.
\<close>

theorem bin_estimates:
  assumes init: "Profile_init r cat rin rout ba space h bf bn g = (Inr p, g')"
    and dg: "digit_of h cat (bins p) = Inr digit"
    and i: "i < length (bins p) - 1"
    and ne: "masked digit i cat \<noteq> []"
  shows "\<exists>sigma weight m_cal.
           map (\<lambda>s. set_sigma_critic (cat_DL s) (cat_DS s) (cat_DLS s)) (masked digit i cat)
             = map Inr sigma
         \<and> weight = map2 (\<lambda>s c. cat_weight s / c\<^sup>2) (masked digit i cat) sigma
         \<and> m_cal = 1 + weighted_average (map cat_m (masked digit i cat)) weight
         \<and> sum_list weight \<noteq> 0 \<and> m_cal \<noteq> 0
         \<and> shear p ! i
             = weighted_average (map2 (\<lambda>s c. cat_et s * c) (masked digit i cat) sigma) weight
               / m_cal
         \<and> cero p ! i
             = weighted_average (map2 (\<lambda>s c. cat_ex s * c) (masked digit i cat) sigma) weight
               / m_cal"
proof -
  from init dg i obtain p0 p1 where
    b: "Profile_bin r cat (sigma_critic_of cat) digit bf bn i p0 g = (Inr p1, g)" and
    l0: "lens p0 = (length (bins p) - 1, length (bins p) - 1, length (bins p) - 1,
                    length (bins p) - 1, length (bins p) - 1, length (bins p) - 1)" and
    rq: "row p i = row p1 i"
    by (rule Profile_init_bin)
  from Profile_bin_nonempty [OF b ne l0 i] obtain st where
    st: "bin_statistics (masked digit i cat) (masked digit i (sigma_critic_of cat)) = Inr st"
    and sh: "shear p1 ! i = b_shear st" and ce: "cero p1 ! i = b_cero st"
    by blast
  from rq sh ce have pq: "shear p ! i = b_shear st" "cero p ! i = b_cero st"
    by (simp_all add: row_def)
  from bin_statistics_Inr [OF st] pq show ?thesis
    by (simp add: sigma_critic_of_def masked_map) blast
qed

lemma consts_pos: "0 < cvel" "0 < G" "0 < pc" "0 < Msun"
  by (simp_all add: cvel_def G_def pc_def Msun_def)

lemma example_source_fields:
  "cat_dist example_source = 1 / 360" "cat_et example_source = 1 / 10" "cat_ex example_source = 0" "cat_m example_source = 0"
  "cat_weight example_source = 1" "cat_DL example_source = 1000" "cat_DS example_source = 1000" "cat_DLS example_source = 500"
  by (simp_all add: example_source_def)

lemma example_source_dist: "dist_hMpc (7/10) example_source = 7 * pi / 648"
  by (simp add: dist_hMpc_def example_source_fields set_Mpc_scale_def deg2rad_def)

lemma example_source_digit: "digit_of (7/10) [example_source] [1/100, 1] = Inr [0]"
  using pi_ge_two pi_less_4
  by (simp add: digit_of_def digitize_def monotonicity_def and_then_def example_source_dist
          searchsorted_right_def)

lemma example_source_init:
  "\<exists>p. Profile_init example_rng [example_source] (1/100) 1 (BinsArray [1/100, 1]) ''log'' (7/10)
     False 100 5 = (Inr p, 5)"
  using consts_pos
  by (simp add: Profile_init_def make_bins_def example_source_digit Profile_bin_def masked_def
        Profile_zeros_def sigma_critic_of_def example_source_fields bin_statistics_def
        set_sigma_critic_def and_then_def fdiv_def np_average_def)

lemma Profile_init_bins:
  assumes "Profile_init r cat rin rout ba space h bf bn g = (Inr p, g')"
  shows "make_bins ba space rin rout = Inr (bins p)"
proof -
  from assms obtain bs digit where mb: "make_bins ba space rin rout = Inr bs" and
    lp: "Profile_loop r cat (sigma_critic_of cat) digit bf bn [0..<length bs - 1]
           (Profile_zeros bs (length bs - 1)) g = (Inr p, g')"
    by (rule Profile_init_Inr)
  from Profile_loop_frame [OF lp] mb show ?thesis by (simp add: Profile_zeros_def)
qed

theorem bin_estimates_witness:
  "\<exists>p sigma. Profile_init example_rng [example_source] (1/100) 1 (BinsArray [1/100, 1]) ''log'' (7/10)
       False 100 5 = (Inr p, 5)
     \<and> set_sigma_critic 1000 1000 500 = Inr sigma
     \<and> shear p ! 0
         = weighted_average [1 / 10 * sigma] [1 / sigma\<^sup>2] / (1 + weighted_average [0] [1 / sigma\<^sup>2])
     \<and> cero p ! 0
         = weighted_average [0 * sigma] [1 / sigma\<^sup>2] / (1 + weighted_average [0] [1 / sigma\<^sup>2])"
proof -
  from example_source_init obtain p where
    init: "Profile_init example_rng [example_source] (1/100) 1 (BinsArray [1/100, 1]) ''log'' (7/10)
       False 100 5 = (Inr p, 5)" ..
  from Profile_init_bins [OF init] have bs: "bins p = [1/100, 1]"
    by (simp add: make_bins_def)
  have dg: "digit_of (7/10) [example_source] (bins p) = Inr [0]"
    by (simp add: bs example_source_digit)
  have i: "0 < length (bins p) - 1" by (simp add: bs)
  have ne: "masked [0] 0 [example_source] \<noteq> []" by (simp add: masked_def)
  from bin_estimates [OF init dg i ne] obtain sigma weight m_cal where
    a: "map (\<lambda>s. set_sigma_critic (cat_DL s) (cat_DS s) (cat_DLS s)) (masked [0] 0 [example_source])
             = map Inr sigma" and
    b: "weight = map2 (\<lambda>s c. cat_weight s / c\<^sup>2) (masked [0] 0 [example_source]) sigma" and
    c: "m_cal = 1 + weighted_average (map cat_m (masked [0] 0 [example_source])) weight" and
    d: "shear p ! 0
         = weighted_average (map2 (\<lambda>s c. cat_et s * c) (masked [0] 0 [example_source]) sigma) weight
           / m_cal" and
    e: "cero p ! 0
         = weighted_average (map2 (\<lambda>s c. cat_ex s * c) (masked [0] 0 [example_source]) sigma) weight
           / m_cal"
    by blast
  from a obtain c0 where s: "sigma = [c0]" and c0: "set_sigma_critic 1000 1000 500 = Inr c0"
    by (cases sigma) (auto simp: masked_def example_source_fields)
  from b c d e s c0 init show ?thesis
    by (auto simp: masked_def example_source_fields)
qed

lemma boot_error_indep: "\<exists>e. \<forall>g. boot_error r sv cv w nb g = (e, g)"
  by (rule exI [of _ "fst (boot_error r sv cv w nb undefined)"])
     (simp add: boot_error_def Let_def split: prod.splits)

lemma Profile_bin_indep: "\<exists>x. \<forall>g. Profile_bin r cat sc digit bf bn i p g = (x, g)"
proof (cases "bin_statistics (masked digit i cat) (masked digit i sc)")
  case (Inl e)
  then show ?thesis
    by (cases "masked digit i cat = []") (simp_all add: Profile_bin_def Let_def)
next
  case (Inr b)
  obtain e where e: "\<And>g. boot_error r (b_et_sc b) (b_ex_sc b) (b_weight b) bn g = (e, g)"
    using boot_error_indep by blast
  show ?thesis
    by (cases "masked digit i cat = []"; cases bf; cases e)
       (auto simp: Profile_bin_def Let_def Inr e)
qed

lemma Profile_loop_indep: "\<exists>x. \<forall>g. Profile_loop r cat sc digit bf bn is p g = (x, g)"
proof (induction "is" arbitrary: p)
  case Nil
  then show ?case by simp
next
  case (Cons i rest)
  obtain x where x: "\<And>g. Profile_bin r cat sc digit bf bn i p g = (x, g)"
    using Profile_bin_indep by blast
  show ?case
  proof (cases x)
    case (Inl e)
    with x show ?thesis by simp
  next
    case (Inr p1)
    from Cons.IH [of p1] obtain y where
      "\<And>g. Profile_loop r cat sc digit bf bn rest p1 g = (y, g)" by blast
    with x Inr show ?thesis by simp
  qed
qed

lemma Profile_init_indep:
  "\<exists>x. \<forall>g. Profile_init r cat rin rout ba space h bf bn g = (x, g)"
proof (cases "make_bins ba space rin rout")
  case (Inl e)
  then show ?thesis by (simp add: Profile_init_def)
next
  case mb: (Inr bs)
  show ?thesis
  proof (cases "digit_of h cat bs")
    case (Inl e)
    with mb show ?thesis by (simp add: Profile_init_def)
  next
    case (Inr digit)
    obtain y where "\<And>g. Profile_loop r cat (sigma_critic_of cat) digit bf bn
        [0..<nat (int (length bs) - 1)] (Profile_zeros bs (nat (int (length bs) - 1))) g = (y, g)"
      using Profile_loop_indep by blast
    with mb Inr show ?thesis
      by (cases "bs = []") (simp_all add: Profile_init_def Let_def)
  qed
qed

text \<open>
  C7. The bootstrap is deterministic: two runs of the construction on the same inputs and
  the same \<open>boot_n\<close> give the same outcome (hence the same bootstrap errors of the shear and
  of the cross shear) whatever the states \<open>g1\<close> and \<open>g2\<close> of the global generator when they
  start, because the resampling reseeds the generator with 1; so does \<open>_boot_error\<close> alone;
  and the construction leaves the global generator as it found it.
\<close>

theorem bootstrap_deterministic:
  "fst (Profile_init r cat rin rout ba space h bf bn g1)
     = fst (Profile_init r cat rin rout ba space h bf bn g2)
   \<and> fst (boot_error r sv cv w bn g1) = fst (boot_error r sv cv w bn g2)
   \<and> snd (Profile_init r cat rin rout ba space h bf bn g1) = g1"
proof -
  obtain x where "\<And>g. Profile_init r cat rin rout ba space h bf bn g = (x, g)"
    using Profile_init_indep by blast
  moreover obtain e where "\<And>g. boot_error r sv cv w bn g = (e, g)"
    using boot_error_indep by blast
  ultimately show ?thesis by simp
qed


lemma example_source_init_boot:
  "\<exists>p. Profile_init example_rng [example_source] (1/100) 1 (BinsArray [1/100, 1]) ''log'' (7/10)
     True 2 5 = (Inr p, 5)"
  using consts_pos
  by (simp add: Profile_init_def make_bins_def example_source_digit Profile_bin_def masked_def
        Profile_zeros_def sigma_critic_of_def example_source_fields bin_statistics_def
        set_sigma_critic_def and_then_def fdiv_def np_average_def boot_error_def
        bootstrap_def example_rng_def numeral_2_eq_2 take_idx_def avg_rows_def
        np_std_def np_mean_def)

theorem bootstrap_deterministic_witness:
  "\<exists>p. Profile_init example_rng [example_source] (1/100) 1 (BinsArray [1/100, 1]) ''log'' (7/10)
         True 2 5 = (Inr p, 5)
     \<and> Profile_init example_rng [example_source] (1/100) 1 (BinsArray [1/100, 1]) ''log'' (7/10)
         True 2 7 = (Inr p, 7)"
proof -
  from example_source_init_boot obtain p where
    a: "Profile_init example_rng [example_source] (1/100) 1 (BinsArray [1/100, 1]) ''log'' (7/10)
         True 2 5 = (Inr p, 5)" ..
  from bootstrap_deterministic
    [of example_rng "[example_source]" "1/100" 1 "BinsArray [1/100, 1]" "''log''" "7/10" True 2 7 5] a
  have "Profile_init example_rng [example_source] (1/100) 1 (BinsArray [1/100, 1]) ''log'' (7/10)
         True 2 7 = (Inr p, 7)"
    by (simp add: prod_eq_iff)
  with a show ?thesis by blast
qed

subsection \<open>Bin edges and membership\<close>

lemma check_up_sorted: "sorted (x # xs) \<Longrightarrow> check_up x xs"
  by (induction xs arbitrary: x) auto

lemma monotonicity_sorted: "sorted bs \<Longrightarrow> monotonicity bs = 1"
proof (cases bs)
  case Nil
  then show ?thesis by (simp add: monotonicity_def)
next
  case (Cons lst rest)
  assume s: "sorted bs"
  show ?thesis
  proof (cases "dropWhile (\<lambda>v. v = lst) rest")
    case Nil
    show ?thesis by (simp add: monotonicity_def Cons Nil)
  next
    case dw: (Cons nxt more)
    from s Cons have "sorted rest" by simp
    then have "sorted (dropWhile (\<lambda>v. v = lst) rest)" by (rule sorted_dropWhile)
    with dw have cu: "check_up nxt more" by (simp add: check_up_sorted del: sorted_wrt.simps)
    have "nxt \<in> set (dropWhile (\<lambda>v. v = lst) rest)" by (simp add: dw)
    then have "nxt \<in> set rest" by (rule set_dropWhileD)
    with s Cons have le: "lst \<le> nxt" by auto
    have "dropWhile (\<lambda>v. v = lst) rest \<noteq> []" by (simp add: dw)
    then have "\<not> (\<lambda>v. v = lst) (hd (dropWhile (\<lambda>v. v = lst) rest))" by (rule hd_dropWhile)
    then have "nxt \<noteq> lst" by (simp add: dw)
    with le have "lst < nxt" by simp
    with cu show ?thesis by (simp add: monotonicity_def Cons dw)
  qed
qed

lemma searchsorted_right_eq:
  assumes s: "sorted bs" and i: "Suc i < length bs"
  shows "(searchsorted_right bs v = Suc i) = (bs ! i \<le> v \<and> v < bs ! Suc i)"
proof
  assume a: "searchsorted_right bs v = Suc i"
  then have l: "length (takeWhile (\<lambda>b. b \<le> v) bs) = Suc i"
    by (simp add: searchsorted_right_def)
  with i have "\<not> bs ! Suc i \<le> v"
    using nth_length_takeWhile [of "\<lambda>b. b \<le> v" bs] by simp
  moreover have "takeWhile (\<lambda>b. b \<le> v) bs ! i = bs ! i"
    using l by (simp add: takeWhile_nth)
  moreover have "takeWhile (\<lambda>b. b \<le> v) bs ! i \<in> set (takeWhile (\<lambda>b. b \<le> v) bs)"
    using l by simp
  then have "takeWhile (\<lambda>b. b \<le> v) bs ! i \<le> v" by (rule set_takeWhileD [THEN conjunct2])
  ultimately show "bs ! i \<le> v \<and> v < bs ! Suc i" by simp
next
  assume b: "bs ! i \<le> v \<and> v < bs ! Suc i"
  have "takeWhile (\<lambda>b. b \<le> v) bs = take (Suc i) bs"
  proof (rule takeWhile_eq_take_P_nth)
    fix j assume "j < Suc i" "j < length bs"
    with s i have "bs ! j \<le> bs ! i" by (simp add: sorted_nth_mono)
    with b show "bs ! j \<le> v" by simp
  next
    from b show "\<not> bs ! Suc i \<le> v" by simp
  qed
  with i show "searchsorted_right bs v = Suc i" by (simp add: searchsorted_right_def)
qed

lemma digit_of_sorted:
  assumes "sorted bs" and "digit_of h cat bs = Inr digit"
  shows "digit = map (\<lambda>s. int (searchsorted_right bs (dist_hMpc h s)) - 1) cat"
  using assms monotonicity_sorted [of bs]
  by (auto simp: digit_of_def digitize_def and_then_def Let_def comp_def)


lemma masked_filter: "masked (map f cat) i cat = filter (\<lambda>s. f s = int i) cat"
  by (induction cat) (auto simp: masked_def)

lemma Profile_bin_cong:
  assumes "masked digit i cat = masked digit' i cat'"
    and "masked digit i sc = masked digit' i sc'"
  shows "Profile_bin r cat sc digit bf bn i p g = Profile_bin r cat' sc' digit' bf bn i p g"
  by (simp only: Profile_bin_def assms)

lemma Profile_loop_cong:
  assumes "\<forall>i\<in>set is. masked digit i cat = masked digit' i cat'
                    \<and> masked digit i sc = masked digit' i sc'"
  shows "Profile_loop r cat sc digit bf bn is p g = Profile_loop r cat' sc' digit' bf bn is p g"
  using assms
proof (induction "is" arbitrary: p g)
  case Nil
  then show ?case by simp
next
  case (Cons i rest)
  from Cons.prems have m: "masked digit i cat = masked digit' i cat'"
    "masked digit i sc = masked digit' i sc'"
    by simp_all
  have b: "Profile_bin r cat sc digit bf bn i p g = Profile_bin r cat' sc' digit' bf bn i p g"
    using m by (rule Profile_bin_cong)
  from Cons.prems have "\<forall>i\<in>set rest. masked digit i cat = masked digit' i cat'
                    \<and> masked digit i sc = masked digit' i sc'"
    by simp
  then have ih: "\<And>p g. Profile_loop r cat sc digit bf bn rest p g
      = Profile_loop r cat' sc' digit' bf bn rest p g"
    by (rule Cons.IH)
  show ?case by (simp only: Profile_loop.simps b ih)
qed

lemma Profile_bin_count:
  assumes "Profile_bin r cat sc digit bf bn i p0 g = (Inr p1, g')" and "i < length (N p0)"
  shows "N p1 ! i = length (masked digit i cat)"
  using assms
  by (auto simp: Profile_bin_def Let_def and_then_def
           split: sum.splits prod.splits if_splits)

lemma sorted_interval:
  assumes s: "sorted bs" and i: "Suc i < length bs" and a: "bs ! i \<le> v" "v < bs ! Suc i"
  shows "bs ! 0 \<le> v" and "v \<le> last bs"
proof -
  from s i have "bs ! 0 \<le> bs ! i" by (simp add: sorted_nth_mono)
  with a show "bs ! 0 \<le> v" by simp
  from i have "bs \<noteq> []" by auto
  then have "last bs = bs ! (length bs - 1)" by (rule last_conv_nth)
  moreover from s i have "bs ! Suc i \<le> bs ! (length bs - 1)" by (simp add: sorted_nth_mono)
  ultimately show "v \<le> last bs" using a by simp
qed

lemma sorted_interval_unique:
  assumes s: "sorted bs" and i: "Suc i < length bs" and j: "Suc j < length bs"
    and a: "bs ! i \<le> v" "v < bs ! Suc i" and b: "bs ! j \<le> v" "v < bs ! Suc j"
  shows "i = j"
proof (rule ccontr)
  assume "i \<noteq> j"
  then consider "Suc i \<le> j" | "Suc j \<le> i" by linarith
  then show False
  proof cases
    case 1
    with s j have "bs ! Suc i \<le> bs ! j" by (simp add: sorted_nth_mono)
    with a b show False by simp
  next
    case 2
    with s i have "bs ! Suc j \<le> bs ! i" by (simp add: sorted_nth_mono)
    with a b show False by simp
  qed
qed

lemma masked_sorted:
  assumes s: "sorted bs" and dg: "digit_of h cat bs = Inr digit" and i: "Suc i < length bs"
  shows "masked digit i cat
         = filter (\<lambda>s. bs ! i \<le> dist_hMpc h s \<and> dist_hMpc h s < bs ! Suc i) cat"
proof -
  have eq: "(int (searchsorted_right bs v) - 1 = int i) = (bs ! i \<le> v \<and> v < bs ! Suc i)" for v
  proof -
    have "(int (searchsorted_right bs v) - 1 = int i) = (searchsorted_right bs v = Suc i)"
      by arith
    then show ?thesis by (simp only: searchsorted_right_eq [OF s i, of v])
  qed
  have "masked digit i cat
      = filter (\<lambda>s. int (searchsorted_right bs (dist_hMpc h s)) - 1 = int i) cat"
    unfolding digit_of_sorted [OF s dg] by (rule masked_filter)
  then show ?thesis by (simp only: eq)
qed

lemma digit_of_sorted_Inr:
  "sorted bs \<Longrightarrow> \<exists>digit. digit_of h cat bs = Inr digit"
  using monotonicity_sorted [of bs]
  by (simp add: digit_of_def digitize_def and_then_def)

text \<open>
  C5. With non-decreasing bin edges, the member galaxies of bin \<open>i\<close> of a constructed
  profile are exactly the galaxies whose projected distance lies in the right-open interval
  from edge \<open>i\<close> to edge \<open>i+1\<close>, and the count of the bin is their number; no distance lies
  in the intervals of two bins, so a galaxy is in at most one bin; a galaxy whose distance
  is below the first edge or above the last edge is a member of no bin; and the constructor
  returns the same profile for the catalog without the galaxies outside the first and last
  edge: they enter no statistic of any bin.
\<close>

theorem bin_membership:
  assumes init: "Profile_init r cat rin rout ba space h bf bn g = (Inr p, g')"
    and dg: "digit_of h cat (bins p) = Inr digit"
    and srt: "sorted (bins p)"
  shows "(\<forall>i. Suc i < length (bins p) \<longrightarrow>
            masked digit i cat
              = filter (\<lambda>s. bins p ! i \<le> dist_hMpc h s \<and> dist_hMpc h s < bins p ! Suc i) cat
            \<and> N p ! i
              = length (filter (\<lambda>s. bins p ! i \<le> dist_hMpc h s
                                    \<and> dist_hMpc h s < bins p ! Suc i) cat))
       \<and> (\<forall>v i j. Suc i < length (bins p) \<and> Suc j < length (bins p)
            \<and> bins p ! i \<le> v \<and> v < bins p ! Suc i \<and> bins p ! j \<le> v \<and> v < bins p ! Suc j
            \<longrightarrow> i = j)
       \<and> (\<forall>s i. Suc i < length (bins p)
            \<and> (dist_hMpc h s < bins p ! 0 \<or> last (bins p) < dist_hMpc h s)
            \<longrightarrow> s \<notin> set (masked digit i cat))
       \<and> Profile_init r
            (filter (\<lambda>s. bins p ! 0 \<le> dist_hMpc h s \<and> dist_hMpc h s \<le> last (bins p)) cat)
            rin rout ba space h bf bn g = (Inr p, g')"
proof (intro conjI allI impI)
  fix i assume i: "Suc i < length (bins p)"
  show m: "masked digit i cat
      = filter (\<lambda>s. bins p ! i \<le> dist_hMpc h s \<and> dist_hMpc h s < bins p ! Suc i) cat"
    using masked_sorted [OF srt dg i] .
  from i have i': "i < length (bins p) - 1" by simp
  from init dg i' obtain p0 p1 where
    b: "Profile_bin r cat (sigma_critic_of cat) digit bf bn i p0 g = (Inr p1, g)" and
    l0: "lens p0 = (length (bins p) - 1, length (bins p) - 1, length (bins p) - 1,
                    length (bins p) - 1, length (bins p) - 1, length (bins p) - 1)" and
    rq: "row p i = row p1 i"
    by (rule Profile_init_bin)
  from l0 i' have "i < length (N p0)" by (simp add: lens_def)
  from Profile_bin_count [OF b this] rq m
  show "N p ! i = length (filter (\<lambda>s. bins p ! i \<le> dist_hMpc h s
                                    \<and> dist_hMpc h s < bins p ! Suc i) cat)"
    by (simp add: row_def)
next
  fix v i j
  assume "Suc i < length (bins p) \<and> Suc j < length (bins p)
            \<and> bins p ! i \<le> v \<and> v < bins p ! Suc i \<and> bins p ! j \<le> v \<and> v < bins p ! Suc j"
  then show "i = j" using sorted_interval_unique [OF srt, of i j v] by simp
next
  fix s i
  assume a: "Suc i < length (bins p)
            \<and> (dist_hMpc h s < bins p ! 0 \<or> last (bins p) < dist_hMpc h s)"
  show "s \<notin> set (masked digit i cat)"
  proof
    assume "s \<in> set (masked digit i cat)"
    moreover from a have i: "Suc i < length (bins p)" by simp
    ultimately have m: "bins p ! i \<le> dist_hMpc h s" "dist_hMpc h s < bins p ! Suc i"
      by (simp_all add: masked_sorted [OF srt dg])
    from sorted_interval [OF srt i m] a show False by simp
  qed
next
  let ?Q = "\<lambda>s. bins p ! 0 \<le> dist_hMpc h s \<and> dist_hMpc h s \<le> last (bins p)"
  let ?cat = "filter ?Q cat"
  from init obtain bs digit0 where
    mb: "make_bins ba space rin rout = Inr bs" and
    dg0: "digit_of h cat bs = Inr digit0" and pos: "0 < length bs" and
    lp: "Profile_loop r cat (sigma_critic_of cat) digit0 bf bn [0..<length bs - 1]
           (Profile_zeros bs (length bs - 1)) g = (Inr p, g')"
    by (rule Profile_init_Inr)
  from Profile_init_bins [OF init] mb have bs: "bins p = bs" by simp
  with dg dg0 have d0: "digit0 = digit" by simp
  from srt bs obtain digit' where dg': "digit_of h ?cat bs = Inr digit'"
    using digit_of_sorted_Inr [of bs h ?cat] by auto
  have eq: "\<forall>i\<in>set [0..<length bs - 1].
      masked digit i cat = masked digit' i ?cat
      \<and> masked digit i (sigma_critic_of cat) = masked digit' i (sigma_critic_of ?cat)"
  proof
    fix i assume "i \<in> set [0..<length bs - 1]"
    then have i: "Suc i < length (bins p)" using bs by simp
    have "masked digit' i ?cat
        = filter (\<lambda>s. bins p ! i \<le> dist_hMpc h s \<and> dist_hMpc h s < bins p ! Suc i) ?cat"
      using masked_sorted [OF srt _ i, of h ?cat digit'] dg' bs by simp
    also have "\<dots> = filter (\<lambda>s. ?Q s \<and> bins p ! i \<le> dist_hMpc h s
                               \<and> dist_hMpc h s < bins p ! Suc i) cat"
      by (simp add: conj_commute conj_left_commute)
    also have "\<dots> = filter (\<lambda>s. bins p ! i \<le> dist_hMpc h s \<and> dist_hMpc h s < bins p ! Suc i) cat"
    proof (rule filter_cong [OF refl])
      fix s
      show "(?Q s \<and> bins p ! i \<le> dist_hMpc h s \<and> dist_hMpc h s < bins p ! Suc i)
          = (bins p ! i \<le> dist_hMpc h s \<and> dist_hMpc h s < bins p ! Suc i)"
        using sorted_interval [OF srt i, of "dist_hMpc h s"] by blast
    qed
    also have "\<dots> = masked digit i cat"
      using masked_sorted [OF srt dg i] by simp
    finally have "masked digit i cat = masked digit' i ?cat" by simp
    then show "masked digit i cat = masked digit' i ?cat
      \<and> masked digit i (sigma_critic_of cat) = masked digit' i (sigma_critic_of ?cat)"
      by (simp add: sigma_critic_of_def masked_map)
  qed
  have "Profile_loop r ?cat (sigma_critic_of ?cat) digit' bf bn [0..<length bs - 1]
           (Profile_zeros bs (length bs - 1)) g = (Inr p, g')"
    using Profile_loop_cong [OF eq, of r bf bn "Profile_zeros bs (length bs - 1)" g] lp
    unfolding d0 by simp
  moreover from pos have "nat (int (length bs) - 1) = length bs - 1" by auto
  ultimately show "Profile_init r ?cat rin rout ba space h bf bn g = (Inr p, g')"
    using mb dg' pos by (simp add: Profile_init_def Let_def)
qed


lemma example_far_dist: "dist_hMpc (7/10) (example_source\<lparr>cat_dist := 0\<rparr>) = 0"
  by (simp add: dist_hMpc_def)

lemma example_pair_digit:
  "digit_of (7/10) [example_source, example_source\<lparr>cat_dist := 0\<rparr>] [1/100, 1] = Inr [0, - 1]"
  using pi_ge_two pi_less_4
  by (simp add: digit_of_def digitize_def monotonicity_def and_then_def example_source_dist
          example_far_dist searchsorted_right_def)

lemma example_pair_init:
  "\<exists>p. Profile_init example_rng [example_source, example_source\<lparr>cat_dist := 0\<rparr>] (1/100) 1
         (BinsArray [1/100, 1]) ''log'' (7/10) False 100 5 = (Inr p, 5)"
  using consts_pos
  by (simp add: Profile_init_def make_bins_def example_pair_digit Profile_bin_def masked_def
        Profile_zeros_def sigma_critic_of_def example_source_fields bin_statistics_def
        set_sigma_critic_def and_then_def fdiv_def np_average_def)

theorem bin_membership_witness:
  "\<exists>p. Profile_init example_rng [example_source, example_source\<lparr>cat_dist := 0\<rparr>] (1/100) 1
         (BinsArray [1/100, 1]) ''log'' (7/10) False 100 5 = (Inr p, 5)
     \<and> N p ! 0 = 1
     \<and> Profile_init example_rng [example_source] (1/100) 1
         (BinsArray [1/100, 1]) ''log'' (7/10) False 100 5 = (Inr p, 5)"
proof -
  let ?cat = "[example_source, example_source\<lparr>cat_dist := 0\<rparr>]"
  from example_pair_init obtain p where
    init: "Profile_init example_rng ?cat (1/100) 1 (BinsArray [1/100, 1]) ''log'' (7/10)
       False 100 5 = (Inr p, 5)" ..
  from Profile_init_bins [OF init] have bs: "bins p = [1/100, 1]"
    by (simp add: make_bins_def)
  have dg: "digit_of (7/10) ?cat (bins p) = Inr [0, - 1]"
    by (simp add: bs example_pair_digit)
  have srt: "sorted (bins p)" by (simp add: bs)
  have d: "1 / 100 \<le> 7 * pi / 648" "7 * pi / 648 < 1"
    using pi_ge_two pi_less_4 by simp_all
  from bin_membership [OF init dg srt] have
    n: "Suc 0 < length (bins p) \<longrightarrow>
          N p ! 0 = length (filter (\<lambda>s. bins p ! 0 \<le> dist_hMpc (7/10) s
                                      \<and> dist_hMpc (7/10) s < bins p ! Suc 0) ?cat)" and
    f: "Profile_init example_rng
          (filter (\<lambda>s. bins p ! 0 \<le> dist_hMpc (7/10) s \<and> dist_hMpc (7/10) s \<le> last (bins p))
             ?cat)
          (1/100) 1 (BinsArray [1/100, 1]) ''log'' (7/10) False 100 5 = (Inr p, 5)"
    by blast+
  from n d have "N p ! 0 = 1"
    by (simp add: bs example_source_dist example_far_dist)
  moreover from f d have "Profile_init example_rng [example_source] (1/100) 1
         (BinsArray [1/100, 1]) ''log'' (7/10) False 100 5 = (Inr p, 5)"
    by (simp add: bs example_source_dist example_far_dist)
  ultimately show ?thesis using init by blast
qed

subsection \<open>What the constructor checks\<close>

lemma Profile_zeros_count:
  "(Profile_zeros bs n)\<lparr>N := (N (Profile_zeros bs n))[i := 0]\<rparr> = Profile_zeros bs n"
proof -
  have "(replicate n (0::nat))[i := 0] = replicate n 0"
    by (cases "i < n") (simp_all add: list_update_same_conv list_update_beyond)
  then show ?thesis by (simp add: Profile_zeros_def)
qed

lemma Profile_loop_all_empty:
  assumes "\<forall>i\<in>set is. masked digit i cat = []"
  shows "Profile_loop r cat sc digit bf bn is (Profile_zeros bs n) g
         = (Inr (Profile_zeros bs n), g)"
  using assms
proof (induction "is")
  case Nil
  then show ?case by simp
next
  case (Cons i rest)
  then have "masked digit i cat = []" by simp
  then have "Profile_bin r cat sc digit bf bn i (Profile_zeros bs n) g
      = (Inr (Profile_zeros bs n), g)"
    by (simp add: Profile_bin_empty Profile_zeros_count)
  with Cons show ?case by simp
qed

lemma digit_of_not_monotonic:
  "monotonicity bs = 0 \<Longrightarrow> digit_of h cat bs = Inl ValueError"
  by (simp add: digit_of_def digitize_def and_then_def)

lemma digit_of_empty:
  "monotonicity bs \<noteq> 0 \<Longrightarrow> digit_of h [] bs = Inr []"
  by (simp add: digit_of_def digitize_def and_then_def)

text \<open>
  C3, as amended. The constructor validates neither the catalog nor \<open>DS\<close>, and there is
  no InvalidInputError. Its only check of the bin edges is the monotonicity test of
  \<open>np.digitize\<close>: when the edges are neither non-decreasing nor non-increasing the
  construction raises ValueError, for every catalog. With edges that pass the test
  (repeated or decreasing edges do), a catalog none of whose galaxies falls in a bin gives
  the all-zero profile whatever its \<open>DS\<close> values, and so does the empty catalog.
\<close>

theorem no_input_validation:
  assumes mb: "make_bins ba space rin rout = Inr bs"
  shows "(monotonicity bs = 0 \<longrightarrow>
            Profile_init r cat rin rout ba space h bf bn g = (Inl ValueError, g))
       \<and> (monotonicity bs \<noteq> 0 \<and> bs \<noteq> [] \<longrightarrow>
            (\<forall>digit. digit_of h cat bs = Inr digit
               \<and> (\<forall>i. Suc i < length bs \<longrightarrow> masked digit i cat = [])
               \<longrightarrow> Profile_init r cat rin rout ba space h bf bn g
                     = (Inr (Profile_zeros bs (length bs - 1)), g)))
       \<and> (monotonicity bs \<noteq> 0 \<and> bs \<noteq> [] \<longrightarrow>
            Profile_init r [] rin rout ba space h bf bn g
              = (Inr (Profile_zeros bs (length bs - 1)), g))"
proof (intro conjI impI allI)
  assume "monotonicity bs = 0"
  then show "Profile_init r cat rin rout ba space h bf bn g = (Inl ValueError, g)"
    using mb by (simp add: Profile_init_def digit_of_not_monotonic)
next
  fix digit
  assume a: "monotonicity bs \<noteq> 0 \<and> bs \<noteq> []"
    and b: "digit_of h cat bs = Inr digit \<and> (\<forall>i. Suc i < length bs \<longrightarrow> masked digit i cat = [])"
  from a have n: "nat (int (length bs) - 1) = length bs - 1" "\<not> int (length bs) - 1 < 0"
    by (cases bs; simp)+
  from b have "\<forall>i\<in>set [0..<length bs - 1]. masked digit i cat = []" by simp
  then have "Profile_loop r cat (sigma_critic_of cat) digit bf bn [0..<length bs - 1]
      (Profile_zeros bs (length bs - 1)) g = (Inr (Profile_zeros bs (length bs - 1)), g)"
    by (rule Profile_loop_all_empty)
  with mb b n show "Profile_init r cat rin rout ba space h bf bn g
      = (Inr (Profile_zeros bs (length bs - 1)), g)"
    by (simp add: Profile_init_def Let_def)
next
  assume a: "monotonicity bs \<noteq> 0 \<and> bs \<noteq> []"
  from a have n: "nat (int (length bs) - 1) = length bs - 1" "\<not> int (length bs) - 1 < 0"
    by (cases bs; simp)+
  have "\<forall>i\<in>set [0..<length bs - 1]. masked [] i ([]::source list) = []"
    by (simp add: masked_def)
  then have "Profile_loop r [] (sigma_critic_of []) [] bf bn [0..<length bs - 1]
      (Profile_zeros bs (length bs - 1)) g = (Inr (Profile_zeros bs (length bs - 1)), g)"
    by (rule Profile_loop_all_empty)
  with mb a n show "Profile_init r [] rin rout ba space h bf bn g
      = (Inr (Profile_zeros bs (length bs - 1)), g)"
    by (simp add: Profile_init_def Let_def digit_of_empty)
qed

theorem no_input_validation_witness:
  "monotonicity [3, 1, 2] = 0
   \<and> Profile_init example_rng [example_source] (1/10) 10 (BinsArray [3, 1, 2]) ''log'' (7/10)
        True 100 5 = (Inl ValueError, 5)
   \<and> monotonicity [2, 1, 1] \<noteq> 0
   \<and> Profile_init example_rng [] (1/10) 10 (BinsArray [2, 1, 1]) ''log'' (7/10)
        True 100 5 = (Inr (Profile_zeros [2, 1, 1] 2), 5)"
proof -
  have m1: "monotonicity [3, 1, 2] = 0" by (simp add: monotonicity_def)
  have m2: "monotonicity [2, 1, 1] \<noteq> 0" by (simp add: monotonicity_def)
  have b1: "make_bins (BinsArray [3, 1, 2]) ''log'' (1/10) 10 = Inr [3, 1, 2]"
    by (simp add: make_bins_def)
  have b2: "make_bins (BinsArray [2, 1, 1]) ''log'' (1/10) 10 = Inr [2, 1, 1]"
    by (simp add: make_bins_def)
  from no_input_validation [OF b1, of example_rng "[example_source]" "7/10" True 100 5] m1
  have "Profile_init example_rng [example_source] (1/10) 10 (BinsArray [3, 1, 2]) ''log'' (7/10)
        True 100 5 = (Inl ValueError, 5)"
    by blast
  moreover
  from no_input_validation [OF b2, of example_rng "[]" "7/10" True 100 5] m2
  have "Profile_init example_rng [] (1/10) 10 (BinsArray [2, 1, 1]) ''log'' (7/10)
        True 100 5 = (Inr (Profile_zeros [2, 1, 1] 2), 5)"
    by (simp add: numeral_2_eq_2)
  ultimately show ?thesis using m1 m2 by blast
qed

text \<open>
  The claim as the specification states it fails: an empty catalog is accepted, bin edges
  that are not strictly increasing are accepted, and a negative \<open>DS\<close> is accepted; each
  construction returns a profile.
\<close>

theorem invalid_input_counterexample:
  "Profile_init example_rng [] (1/10) 10 (BinsArray [1/10, 1, 10]) ''log'' (7/10) True 100 5
     = (Inr (Profile_zeros [1/10, 1, 10] 2), 5)
   \<and> Profile_init example_rng [example_source] (1/10) 10 (BinsArray [1, 1, 2]) ''log'' (7/10)
        True 100 5 = (Inr (Profile_zeros [1, 1, 2] 2), 5)
   \<and> (\<exists>p. Profile_init example_rng [example_source\<lparr>cat_DS := - 1000\<rparr>] (1/100) 1
         (BinsArray [1/100, 1]) ''log'' (7/10) False 100 5 = (Inr p, 5))"
proof (intro conjI)
  show "Profile_init example_rng [] (1/10) 10 (BinsArray [1/10, 1, 10]) ''log'' (7/10) True 100 5
     = (Inr (Profile_zeros [1/10, 1, 10] 2), 5)"
    by (simp add: Profile_init_def make_bins_def digit_of_def digitize_def monotonicity_def
          and_then_def Profile_bin_def masked_def Profile_zeros_def numeral_2_eq_2
          sigma_critic_of_def)
  have d: "digit_of (7/10) [example_source] [1, 1, 2] = Inr [- 1]"
    using pi_ge_two pi_less_4
    by (simp add: digit_of_def digitize_def monotonicity_def and_then_def example_source_dist
          searchsorted_right_def)
  show "Profile_init example_rng [example_source] (1/10) 10 (BinsArray [1, 1, 2]) ''log'' (7/10)
        True 100 5 = (Inr (Profile_zeros [1, 1, 2] 2), 5)"
    by (simp add: Profile_init_def make_bins_def d Profile_bin_def masked_def
          Profile_zeros_def numeral_2_eq_2)
  have e: "dist_hMpc (7/10) (example_source\<lparr>cat_DS := - 1000\<rparr>) = 7 * pi / 648"
    by (simp add: dist_hMpc_def example_source_fields set_Mpc_scale_def deg2rad_def)
  have d': "digit_of (7/10) [example_source\<lparr>cat_DS := - 1000\<rparr>] [1/100, 1] = Inr [0]"
    using pi_ge_two pi_less_4
    by (simp add: digit_of_def digitize_def monotonicity_def and_then_def e
          searchsorted_right_def)
  show "\<exists>p. Profile_init example_rng [example_source\<lparr>cat_DS := - 1000\<rparr>] (1/100) 1
         (BinsArray [1/100, 1]) ''log'' (7/10) False 100 5 = (Inr p, 5)"
    using consts_pos
    by (simp add: Profile_init_def make_bins_def d' Profile_bin_def masked_def
        Profile_zeros_def sigma_critic_of_def example_source_fields bin_statistics_def
        set_sigma_critic_def and_then_def fdiv_def np_average_def)
qed

subsection \<open>Writing the profile to a file\<close>

lemma lookup_datetime: "lookup_global ''datetime'' = Inl NameError"
  by (simp add: lookup_global_def module_globals_def)

lemma header_block_example:
  "header_block (Some [(''z_min'', ''0.1'')])
     = ''# ------------------------------------------------'' @ nl
       @ ''# Lensing profile '' @ nl
       @ ''# z_min          = 0.1'' @ nl
       @ ''# '' @ nl"
  by code_simp

lemma header_block_None:
  "header_block None
     = ''# ------------------------------------------------'' @ nl
       @ ''# Lensing profile '' @ nl
       @ ''# '' @ nl"
  by code_simp

text \<open>
  C9. Every call of \<open>write_to\<close> raises NameError: \<open>datetime\<close> is not among the names the
  module binds, so line 122 fails. The call stops inside the header block: the file holds
  its former content followed by the first separator, the title line, the lines of the cut
  parameters and the line \<open>#\<close>, and neither the time stamp nor the table is written. No
  call returns normally.
\<close>

theorem write_to_raises_NameError:
  "''datetime'' \<notin> set module_globals
   \<and> write_to now fmt self file header colnames fs
       = (Inl NameError,
          fs(file \<mapsto> (case fs file of None \<Rightarrow> [] | Some c \<Rightarrow> c) @ header_block header))
   \<and> fst (write_to now fmt self file header colnames fs) \<noteq> Inr ()"
  by (simp add: write_to_def lookup_datetime module_globals_def)

theorem write_to_raises_NameError_witness:
  "fst (write_to ''2019-03-01 12:00:00'' (\<lambda>x. ''    0.000000'') (Profile_zeros [1, 2] 1)
          ''profile.txt'' (Some [(''z_min'', ''0.1'')]) True Map.empty) = Inl NameError
   \<and> map_option lines_of
        (snd (write_to ''2019-03-01 12:00:00'' (\<lambda>x. ''    0.000000'') (Profile_zeros [1, 2] 1)
          ''profile.txt'' (Some [(''z_min'', ''0.1'')]) True Map.empty) ''profile.txt'')
       = Some [''# ------------------------------------------------'',
               ''# Lensing profile '',
               ''# z_min          = 0.1'',
               ''# '',
               []]"
  using write_to_raises_NameError
    [of "''2019-03-01 12:00:00''" "\<lambda>x. ''    0.000000''" "Profile_zeros [1, 2] 1"
        "''profile.txt''" "Some [(''z_min'', ''0.1'')]" True Map.empty]
  by (simp add: header_block_example nl_def)

text \<open>
  C8, as amended. Every call of \<open>write_to\<close> appends to what the file held (nothing, when
  the file did not exist), in this order: a separator line made of \<open>#\<close>, a space and 48
  dashes (50 characters), the line \<open># Lensing profile\<close> with a trailing space, one line
  \<open># key = value\<close> for each item of the optional header, the key padded with spaces on
  the right to 14 characters, and the line \<open>#\<close> followed by a space. No other file changes.
\<close>

theorem write_to_appends_header:
  "(\<exists>rest. snd (write_to now fmt self file header colnames fs) file
       = Some ((case fs file of None \<Rightarrow> [] | Some c \<Rightarrow> c)
               @ ''# '' @ replicate 48 CHR ''-'' @ nl
               @ ''# Lensing profile '' @ nl
               @ (case header of None \<Rightarrow> []
                  | Some items \<Rightarrow>
                      concat (map (\<lambda>(key, v). ''# '' @ key @ replicate (14 - length key) CHR '' ''
                                               @ '' = '' @ v @ nl) items))
               @ ''# '' @ nl @ rest))
   \<and> length (''# '' @ replicate 48 CHR ''-'') = 50
   \<and> (\<forall>f. f \<noteq> file \<longrightarrow> snd (write_to now fmt self file header colnames fs) f = fs f)"
proof (intro conjI)
  have "header_block header
      = ''# '' @ replicate 48 CHR ''-'' @ nl
        @ ''# Lensing profile '' @ nl
        @ (case header of None \<Rightarrow> []
           | Some items \<Rightarrow>
               concat (map (\<lambda>(key, v). ''# '' @ key @ replicate (14 - length key) CHR '' ''
                                        @ '' = '' @ v @ nl) items))
        @ ''# '' @ nl @ []"
    by (cases header) (simp_all add: header_block_def ljust_def)
  then have "snd (write_to now fmt self file header colnames fs) file
       = Some ((case fs file of None \<Rightarrow> [] | Some c \<Rightarrow> c)
               @ ''# '' @ replicate 48 CHR ''-'' @ nl
               @ ''# Lensing profile '' @ nl
               @ (case header of None \<Rightarrow> []
                  | Some items \<Rightarrow>
                      concat (map (\<lambda>(key, v). ''# '' @ key @ replicate (14 - length key) CHR '' ''
                                               @ '' = '' @ v @ nl) items))
               @ ''# '' @ nl @ [])"
    by (simp only: write_to_def lookup_datetime Let_def sum.case snd_conv fun_upd_same)
  then show "\<exists>rest. snd (write_to now fmt self file header colnames fs) file
       = Some ((case fs file of None \<Rightarrow> [] | Some c \<Rightarrow> c)
               @ ''# '' @ replicate 48 CHR ''-'' @ nl
               @ ''# Lensing profile '' @ nl
               @ (case header of None \<Rightarrow> []
                  | Some items \<Rightarrow>
                      concat (map (\<lambda>(key, v). ''# '' @ key @ replicate (14 - length key) CHR '' ''
                                               @ '' = '' @ v @ nl) items))
               @ ''# '' @ nl @ rest)"
    by (rule exI)
  show "length (''# '' @ replicate 48 CHR ''-'') = 50" by simp
  show "\<forall>f. f \<noteq> file \<longrightarrow> snd (write_to now fmt self file header colnames fs) f = fs f"
    by (simp add: write_to_def lookup_datetime)
qed

lemma replicate_48: "replicate 48 CHR ''-'' = ''------------------------------------------------''"
  by code_simp

theorem write_to_appends_header_witness:
  "(\<exists>rest. snd (write_to ''2019-03-01 12:00:00'' (\<lambda>x. ''    0.000000'') (Profile_zeros [1, 2] 1)
          ''profile.txt'' None True [''profile.txt'' \<mapsto> ''old'']) ''profile.txt''
       = Some (''old# ------------------------------------------------'' @ nl
               @ ''# Lensing profile '' @ nl @ ''# '' @ nl @ rest))
   \<and> snd (write_to ''2019-03-01 12:00:00'' (\<lambda>x. ''    0.000000'') (Profile_zeros [1, 2] 1)
          ''profile.txt'' None True [''profile.txt'' \<mapsto> ''old'']) ''other.txt'' = None"
  using write_to_appends_header
    [of "''2019-03-01 12:00:00''" "\<lambda>x. ''    0.000000''" "Profile_zeros [1, 2] 1"
        "''profile.txt''" None True "[''profile.txt'' \<mapsto> ''old'']"]
  by (simp add: replicate_48)

text \<open>
  The claim as the specification states it fails: on a new file and with no header, the
  call raises NameError, and the file then holds three lines only. There is no time stamp,
  no line of 50 dashes, no line of column names and no row of the table.
\<close>

theorem write_to_table_counterexample:
  "fst (write_to ''2019-03-01 12:00:00'' (\<lambda>x. ''    0.000000'') (Profile_zeros [1, 2] 1)
          ''profile.txt'' None True Map.empty) = Inl NameError
   \<and> map_option lines_of
        (snd (write_to ''2019-03-01 12:00:00'' (\<lambda>x. ''    0.000000'') (Profile_zeros [1, 2] 1)
          ''profile.txt'' None True Map.empty) ''profile.txt'')
       = Some [''# ------------------------------------------------'',
               ''# Lensing profile '',
               ''# '',
               []]
   \<and> ''--------------------------------------------------''
       \<notin> set (lines_of (the (snd (write_to ''2019-03-01 12:00:00'' (\<lambda>x. ''    0.000000'')
              (Profile_zeros [1, 2] 1) ''profile.txt'' None True Map.empty) ''profile.txt'')))
   \<and> '' r_hMpc, shear, shear_error, cero, cero_error, stat_error ''
       \<notin> set (lines_of (the (snd (write_to ''2019-03-01 12:00:00'' (\<lambda>x. ''    0.000000'')
              (Profile_zeros [1, 2] 1) ''profile.txt'' None True Map.empty) ''profile.txt'')))"
  by (simp add: write_to_def lookup_datetime header_block_None nl_def)

subsection \<open>The inversion kernel and the convergence map\<close>

lemma freq_ints_length:
  assumes "0 < n"
  shows "length ([0..(n - 1) div 2] @ [- (n div 2)..- 1]) = nat n"
  using assms by simp

lemma freq_ints_nth:
  assumes n: "0 < n" and i: "i < nat n"
  shows "([0..(n - 1) div 2] @ [- (n div 2)..- 1]) ! i
         = (if int i \<le> (n - 1) div 2 then int i else int i - n)"
proof (cases "int i \<le> (n - 1) div 2")
  case True
  then have "i < length [0..(n - 1) div 2]" by simp
  then have "([0..(n - 1) div 2] @ [- (n div 2)..- 1]) ! i = [0..(n - 1) div 2] ! i"
    by (simp add: nth_append)
  also have "\<dots> = 0 + int i" using True by (intro nth_upto) simp
  finally show ?thesis using True by simp
next
  case False
  with n have l: "length [0..(n - 1) div 2] = nat ((n - 1) div 2 + 1)"
    by simp
  from False n have ge: "\<not> i < length [0..(n - 1) div 2]" by (simp add: l)
  from n have half: "(n - 1) div 2 + 1 + n div 2 = n" by presburger
  have "([0..(n - 1) div 2] @ [- (n div 2)..- 1]) ! i
      = [- (n div 2)..- 1] ! (i - nat ((n - 1) div 2 + 1))"
    using ge by (simp add: nth_append l)
  also have "\<dots> = - (n div 2) + int (i - nat ((n - 1) div 2 + 1))"
    using False n i half by (intro nth_upto) linarith
  also have "\<dots> = int i - n" using False n half by linarith
  finally show ?thesis using False by simp
qed

lemma freq_ints_zero:
  assumes n: "0 < n" and i: "i < nat n"
  shows "(([0..(n - 1) div 2] @ [- (n div 2)..- 1]) ! i = 0) = (i = 0)"
  using freq_ints_nth [OF n i] i by (auto split: if_splits)

lemma fftfreq_Inr:
  assumes n: "0 < n" and d: "d \<noteq> 0"
  shows "\<exists>ks. fftfreq n d = Inr ks \<and> length ks = nat n \<and> (\<forall>i<nat n. (ks ! i = 0) = (i = 0))"
proof -
  let ?L = "[0..(n - 1) div 2] @ [- (n div 2)..- 1]"
  let ?f = "\<lambda>k. real_of_int k * (1 / (real_of_int n * d))"
  let ?ks = "map ?f ?L"
  have f: "fftfreq n d = Inr ?ks" using n d by (simp add: fftfreq_def)
  have l: "length ?ks = nat n" using freq_ints_length [OF n] by (simp only: length_map)
  have z: "(?ks ! i = 0) = (i = 0)" if "i < nat n" for i
  proof -
    from that freq_ints_length [OF n] have "i < length ?L" by simp
    then have "?ks ! i = ?f (?L ! i)" by (rule nth_map)
    moreover from n d have "1 / (real_of_int n * d) \<noteq> 0" by simp
    ultimately have "(?ks ! i = 0) = (?L ! i = 0)" by simp
    with freq_ints_zero [OF n that] show ?thesis by simp
  qed
  from f l z show ?thesis by blast
qed

lemma kernel_entry_norm:
  fixes a b :: real
  assumes "0 < a\<^sup>2 + b\<^sup>2"
  shows "cmod (Complex (a\<^sup>2 - b\<^sup>2) (- 2 * a * b) / complex_of_real (a\<^sup>2 + b\<^sup>2)) = 1"
proof -
  define s where "s = a\<^sup>2 + b\<^sup>2"
  have "(a\<^sup>2 - b\<^sup>2)\<^sup>2 + (- 2 * a * b)\<^sup>2 = s\<^sup>2"
    by (simp add: s_def power2_eq_square algebra_simps)
  then have "cmod (Complex (a\<^sup>2 - b\<^sup>2) (- 2 * a * b)) = \<bar>s\<bar>"
    by (simp only: cmod_def complex.sel real_sqrt_abs)
  moreover have "cmod (complex_of_real s) = \<bar>s\<bar>"
    by (rule norm_of_real)
  ultimately have "cmod (Complex (a\<^sup>2 - b\<^sup>2) (- 2 * a * b) / complex_of_real s) = \<bar>s\<bar> / \<bar>s\<bar>"
    by (simp only: norm_divide)
  moreover from assms have "0 < s" by (simp only: s_def)
  then have "\<bar>s\<bar> / \<bar>s\<bar> = 1" by simp
  ultimately show ?thesis by (simp only: s_def)
qed

lemma index2_map:
  "i < length xs \<Longrightarrow> j < length ys \<Longrightarrow>
   index2 (map (\<lambda>x. map (f x) ys) xs) i j = Inr (f (xs ! i) (ys ! j))"
  by (simp add: index2_def)

text \<open>
  C4. For a grid of \<open>nbins > 0\<close> points and non-zero spacings the kernel is built without
  a non-finite value: both frequency arrays exist, with the zero frequency at index 0 and
  nowhere else. The entry at \<open>(0, 0)\<close> is exactly 0. At every other index pair the sum of
  the squared frequencies is positive (so the division is a real division), the entry is
  the quotient the formula gives, and its modulus is 1.
\<close>

theorem kernel_values:
  assumes n: "0 < nbins" and dx: "dx \<noteq> 0" and dy: "dy \<noteq> 0"
  shows "\<exists>kxs kys K.
           fftfreq nbins dx = Inr kxs \<and> fftfreq nbins dy = Inr kys
         \<and> conjugate_inversion_kernel (dx, dy) nbins = Inr K
         \<and> kxs ! 0 = 0 \<and> kys ! 0 = 0
         \<and> K ! 0 ! 0 = 0
         \<and> (\<forall>i j. i < nat nbins \<and> j < nat nbins \<and> (i, j) \<noteq> (0, 0) \<longrightarrow>
               0 < (kxs ! i)\<^sup>2 + (kys ! j)\<^sup>2
             \<and> K ! i ! j
                 = Complex ((kxs ! i)\<^sup>2 - (kys ! j)\<^sup>2) (- 2 * (kxs ! i) * (kys ! j))
                   / complex_of_real ((kxs ! i)\<^sup>2 + (kys ! j)\<^sup>2)
             \<and> cmod (K ! i ! j) = 1)"
proof -
  from fftfreq_Inr [OF n dx] obtain kxs where
    fx: "fftfreq nbins dx = Inr kxs" and lx: "length kxs = nat nbins" and
    zx: "\<And>i. i < nat nbins \<Longrightarrow> (kxs ! i = 0) = (i = 0)" by blast
  from fftfreq_Inr [OF n dy] obtain kys where
    fy: "fftfreq nbins dy = Inr kys" and ly: "length kys = nat nbins" and
    zy: "\<And>j. j < nat nbins \<Longrightarrow> (kys ! j = 0) = (j = 0)" by blast
  let ?D = "\<lambda>kx ky. Complex (kx\<^sup>2 - ky\<^sup>2) (- 2 * kx * ky) / complex_of_real (kx\<^sup>2 + ky\<^sup>2)"
  let ?T = "map (\<lambda>kx. map (?D kx) kys) kxs"
  let ?K = "?T [0 := (?T ! 0) [0 := 0]]"
  from n have pos: "0 < nat nbins" by simp
  have i00: "index2 ?T 0 0 = Inr (?D (kxs ! 0) (kys ! 0))"
    using pos lx ly by (intro index2_map) simp_all
  have k: "conjugate_inversion_kernel (dx, dy) nbins = Inr ?K"
    by (simp only: conjugate_inversion_kernel_def fst_conv snd_conv Let_def fx fy
          and_then_def sum.case i00)
  have k00: "?K ! 0 ! 0 = 0" using pos lx ly by simp
  have rest: "0 < (kxs ! i)\<^sup>2 + (kys ! j)\<^sup>2
        \<and> ?K ! i ! j = ?D (kxs ! i) (kys ! j) \<and> cmod (?K ! i ! j) = 1"
    if ij: "i < nat nbins \<and> j < nat nbins \<and> (i, j) \<noteq> (0, 0)" for i j
  proof -
    from ij zx [of i] zy [of j] have "kxs ! i \<noteq> 0 \<or> kys ! j \<noteq> 0" by auto
    then have p: "0 < (kxs ! i)\<^sup>2 + (kys ! j)\<^sup>2"
      by (metis add_pos_nonneg add_nonneg_pos zero_le_power2 zero_less_power2)
    have e: "?K ! i ! j = ?D (kxs ! i) (kys ! j)"
    proof (cases "i = 0")
      case True
      with ij have "j \<noteq> 0" by simp
      with True ij lx ly show ?thesis by simp
    next
      case False
      with ij lx ly show ?thesis by simp
    qed
    from p e kernel_entry_norm [OF p] show ?thesis by simp
  qed
  from zx [of 0] zy [of 0] pos have "kxs ! 0 = 0" "kys ! 0 = 0" by simp_all
  with fx fy k k00 rest show ?thesis by blast
qed

theorem kernel_values_witness:
  "\<exists>K. conjugate_inversion_kernel (1, 1) 2 = Inr K \<and> K ! 0 ! 0 = 0
       \<and> cmod (K ! 0 ! 1) = 1 \<and> cmod (K ! 1 ! 0) = 1 \<and> cmod (K ! 1 ! 1) = 1"
proof -
  have "(0::int) < 2" "(1::real) \<noteq> 0" by simp_all
  from kernel_values [OF this(1) this(2) this(2)] obtain K where
    k: "conjugate_inversion_kernel (1, 1) 2 = Inr K" and z: "K ! 0 ! 0 = 0" and
    r: "\<And>i j. i < nat 2 \<and> j < nat 2 \<and> (i, j) \<noteq> (0, 0) \<Longrightarrow> cmod (K ! i ! j) = 1"
    by blast
  from r [of 0 1] r [of 1 0] r [of 1 1] have
    "cmod (K ! 0 ! 1) = 1" "cmod (K ! 1 ! 0) = 1" "cmod (K ! 1 ! 1) = 1" by simp_all
  with k z show ?thesis by blast
qed


lemma and_then_Inr:
  "and_then r f = Inr y \<Longrightarrow> \<exists>x. r = Inr x \<and> f x = Inr y"
  by (cases r) (simp_all add: and_then_def)

lemma KappaMap_init_Inr:
  assumes "KappaMap_init ShearMap (Some dat) (Some nbins) = Inr km"
  shows "\<exists>sm x1 x0 gam K T_kappa.
           ShearMap dat nbins = Inr sm
         \<and> index2 (sm_px sm) 1 0 = Inr x1 \<and> index2 (sm_px sm) 0 0 = Inr x0
         \<and> elementwise Complex (sm_e1 sm) (sm_e2 sm) = Inr gam
         \<and> conjugate_inversion_kernel (x1 - x0, x1 - x0) nbins = Inr K
         \<and> elementwise (*) (fft2 gam) K = Inr T_kappa
         \<and> km = \<lparr>shear_map = sm, px = sm_px sm, py = sm_px sm,
                  bin_size = (x1 - x0, x1 - x0), kappa = ifft2 T_kappa\<rparr>"
proof -
  from assms obtain sm where sm: "ShearMap dat nbins = Inr sm"
    by (auto simp: KappaMap_init_def dest!: and_then_Inr)
  from assms sm obtain x1 where x1: "index2 (sm_px sm) 1 0 = Inr x1"
    by (auto simp: KappaMap_init_def Let_def and_then_def split: sum.splits)
  from assms sm x1 obtain x0 where x0: "index2 (sm_px sm) 0 0 = Inr x0"
    by (auto simp: KappaMap_init_def Let_def and_then_def split: sum.splits)
  from assms sm x1 x0 obtain gam where g: "elementwise Complex (sm_e1 sm) (sm_e2 sm) = Inr gam"
    by (auto simp: KappaMap_init_def Let_def and_then_def split: sum.splits)
  from assms sm x1 x0 g obtain K where
    k: "conjugate_inversion_kernel (x1 - x0, x1 - x0) nbins = Inr K"
    by (auto simp: KappaMap_init_def Let_def and_then_def split: sum.splits)
  from assms sm x1 x0 g k obtain T_kappa where
    t: "elementwise (*) (fft2 gam) K = Inr T_kappa"
    by (auto simp: KappaMap_init_def Let_def and_then_def split: sum.splits)
  from assms sm x1 x0 g k t have
    "km = \<lparr>shear_map = sm, px = sm_px sm, py = sm_px sm,
           bin_size = (x1 - x0, x1 - x0), kappa = ifft2 T_kappa\<rparr>"
    by (simp add: KappaMap_init_def Let_def and_then_def)
  with sm x1 x0 g k t show ?thesis by blast
qed


lemma shape_length:
  assumes "map length x = replicate n m"
  shows "length x = n" and "\<And>a. a < n \<Longrightarrow> length (x ! a) = m"
proof -
  from assms have "length (map length x) = length (replicate n m)" by simp
  then show l: "length x = n" by simp
  fix a assume a: "a < n"
  with l have "map length x ! a = length (x ! a)" by simp
  with assms a show "length (x ! a) = m" by simp
qed

lemma shape_hd:
  assumes "map length x = replicate n m" and "0 < n"
  shows "x \<noteq> []" and "length (hd x) = m"
proof -
  from shape_length(1) [OF assms(1)] assms(2) show ne: "x \<noteq> []" by auto
  then have "hd x = x ! 0" by (simp add: hd_conv_nth)
  with shape_length(2) [OF assms(1), of 0] assms(2) show "length (hd x) = m" by simp
qed

lemma sum_list_upt: "sum_list (map f [0..<n]) = (\<Sum>a<n. f a)"
  by (simp add: interv_sum_list_conv_sum_set_nat atLeast0LessThan)

lemma elementwise_Inr:
  assumes e: "elementwise f a b = Inr c" and s: "map length a = replicate n m"
  shows "map length c = replicate n m"
    and "\<And>i j. i < n \<Longrightarrow> j < m \<Longrightarrow> c ! i ! j = f (a ! i ! j) (b ! i ! j)"
proof -
  from e have sb: "map length b = map length a" and c: "c = map2 (map2 f) a b"
    by (auto simp: elementwise_def split: if_splits)
  from sb s have s': "map length b = replicate n m" by simp
  note la = shape_length [OF s] and lb = shape_length [OF s']
  have lc: "length c = n" using c la(1) lb(1) by simp
  have row: "c ! i = map2 f (a ! i) (b ! i)" if "i < n" for i
    using that c la(1) lb(1) by simp
  show "map length c = replicate n m"
  proof (rule nth_equalityI)
    show "length (map length c) = length (replicate n m)" using lc by simp
    fix i assume "i < length (map length c)"
    with lc have i: "i < n" by simp
    with row [OF i] la(2) [OF i] lb(2) [OF i] lc
    show "map length c ! i = replicate n m ! i" by simp
  qed
  fix i j assume i: "i < n" and j: "j < m"
  with row [OF i] la(2) [OF i] lb(2) [OF i]
  show "c ! i ! j = f (a ! i ! j) (b ! i ! j)" by simp
qed

lemma fft2_shape:
  assumes s: "map length x = replicate n n" and n: "0 < n"
  shows "map length (fft2 x) = replicate n n"
  using shape_length(1) [OF s] shape_hd [OF s n]
  by (simp add: fft2_def Let_def comp_def map_replicate_const)

lemma fft2_entry:
  assumes s: "map length x = replicate n n" and u: "u < n" and v: "v < n"
  shows "fft2 x ! u ! v = dft2_spec n (\<lambda>a b. x ! a ! b) u v"
proof -
  from u have n: "0 < n" by simp
  have arg: "real u * real a / real n + real v * real b / real n
      = (real u * real a + real v * real b) / real n" for a b
    by (simp add: add_divide_distrib)
  from shape_length(1) [OF s] shape_hd [OF s n] u v
  show ?thesis
    by (simp add: fft2_def Let_def dft2_spec_def sum_list_upt arg)
qed

lemma ifft2_entry:
  assumes s: "map length y = replicate n n" and j: "j < n" and k: "k < n"
  shows "ifft2 y ! j ! k = idft2_spec n (\<lambda>u v. y ! u ! v) j k"
proof -
  from j have n: "0 < n" by simp
  have arg: "real j * real u / real n + real k * real v / real n
      = (real j * real u + real k * real v) / real n" for u v
    by (simp add: add_divide_distrib)
  from shape_length(1) [OF s] shape_hd [OF s n] j k
  show ?thesis
    by (simp add: ifft2_def Let_def idft2_spec_def sum_list_upt arg power2_eq_square)
qed


lemma ifft2_shape:
  assumes s: "map length y = replicate n n" and n: "0 < n"
  shows "map length (ifft2 y) = replicate n n"
  using shape_length(1) [OF s] shape_hd [OF s n]
  by (simp add: ifft2_def Let_def comp_def map_replicate_const)

lemma fftfreq_length: "fftfreq n d = Inr ks \<Longrightarrow> length ks = nat n"
  by (auto simp: fftfreq_def Let_def split: if_splits)

lemma kernel_shape:
  assumes "conjugate_inversion_kernel bsz n = Inr K"
  shows "map length K = replicate (nat n) (nat n)" and "0 < n"
proof -
  let ?D = "\<lambda>kx ky. Complex (kx\<^sup>2 - ky\<^sup>2) (- 2 * kx * ky) / complex_of_real (kx\<^sup>2 + ky\<^sup>2)"
  from assms obtain kxs where fx: "fftfreq n (fst bsz) = Inr kxs"
    by (auto simp: conjugate_inversion_kernel_def Let_def dest!: and_then_Inr)
  from assms fx obtain kys where fy: "fftfreq n (snd bsz) = Inr kys"
    by (auto simp: conjugate_inversion_kernel_def Let_def and_then_def split: sum.splits)
  let ?T = "map (\<lambda>kx. map (?D kx) kys) kxs"
  from assms fx fy obtain u where u: "index2 ?T 0 0 = Inr u"
    unfolding conjugate_inversion_kernel_def Let_def and_then_def
    by (simp only: sum.case split: sum.splits) blast
  from assms fx fy u have K: "K = ?T [0 := (?T ! 0) [0 := 0]]"
    unfolding conjugate_inversion_kernel_def Let_def and_then_def
    by (simp only: sum.case sum.inject)
  from u have pos: "0 < length kxs" by (auto simp: index2_def split: if_splits)
  with fftfreq_length [OF fx] show "0 < n" by simp
  have lx: "length kxs = nat n" and ly: "length kys = nat n"
    using fftfreq_length [OF fx] fftfreq_length [OF fy] by simp_all
  show "map length K = replicate (nat n) (nat n)"
  proof (rule nth_equalityI)
    show "length (map length K) = length (replicate (nat n) (nat n))"
      by (simp add: K lx)
    fix i assume "i < length (map length K)"
    then have i: "i < nat n" by (simp add: K lx)
    show "map length K ! i = replicate (nat n) (nat n) ! i"
      using i pos lx ly by (cases "i = 0") (simp_all add: K)
  qed
qed

lemma kernel_exists:
  assumes n: "0 < n" and dx: "dx \<noteq> 0" and dy: "dy \<noteq> 0"
  shows "\<exists>K. conjugate_inversion_kernel (dx, dy) n = Inr K"
proof -
  let ?D = "\<lambda>kx ky. Complex (kx\<^sup>2 - ky\<^sup>2) (- 2 * kx * ky) / complex_of_real (kx\<^sup>2 + ky\<^sup>2)"
  from fftfreq_Inr [OF n dx] obtain kxs where
    fx: "fftfreq n dx = Inr kxs" and lx: "length kxs = nat n" by blast
  from fftfreq_Inr [OF n dy] obtain kys where
    fy: "fftfreq n dy = Inr kys" and ly: "length kys = nat n" by blast
  have "index2 (map (\<lambda>kx. map (?D kx) kys) kxs) 0 0 = Inr (?D (kxs ! 0) (kys ! 0))"
    using n lx ly by (intro index2_map) simp_all
  then show ?thesis
    by (simp only: conjugate_inversion_kernel_def fst_conv snd_conv Let_def fx fy
          and_then_def sum.case) blast
qed

lemma KappaMap_init_ok:
  assumes sm: "ShearMap dat nbins = Inr sm" and n: "0 < nbins"
    and x1: "index2 (sm_px sm) 1 0 = Inr x1" and x0: "index2 (sm_px sm) 0 0 = Inr x0"
    and d: "x1 \<noteq> x0"
    and e1: "map length (sm_e1 sm) = replicate (nat nbins) (nat nbins)"
    and e2: "map length (sm_e2 sm) = replicate (nat nbins) (nat nbins)"
  shows "\<exists>km. KappaMap_init ShearMap (Some dat) (Some nbins) = Inr km"
proof -
  from n have pos: "0 < nat nbins" by simp
  from e1 e2 obtain gam where g: "elementwise Complex (sm_e1 sm) (sm_e2 sm) = Inr gam"
    by (simp add: elementwise_def)
  from d kernel_exists [OF n, of "x1 - x0" "x1 - x0"] obtain K where
    k: "conjugate_inversion_kernel (x1 - x0, x1 - x0) nbins = Inr K" by auto
  have "map length (fft2 gam) = replicate (nat nbins) (nat nbins)"
    using fft2_shape [OF elementwise_Inr(1) [OF g e1] pos] .
  with kernel_shape(1) [OF k] obtain T_kappa where
    t: "elementwise (*) (fft2 gam) K = Inr T_kappa"
    by (simp add: elementwise_def)
  from sm x1 x0 g k t show ?thesis
    by (simp add: KappaMap_init_def and_then_def Let_def)
qed


lemma dft2_spec_cong:
  assumes "\<And>a b. a < n \<Longrightarrow> b < n \<Longrightarrow> f a b = g a b"
  shows "dft2_spec n f u v = dft2_spec n g u v"
  unfolding dft2_spec_def
  by (rule sum.cong, rule refl, rule sum.cong, rule refl) (simp add: assms)

lemma idft2_spec_cong:
  assumes "\<And>a b. a < n \<Longrightarrow> b < n \<Longrightarrow> f a b = g a b"
  shows "idft2_spec n f u v = idft2_spec n g u v"
proof -
  have "(\<Sum>a<n. \<Sum>b<n. f a b * cis (2 * pi * (real u * real a + real v * real b) / real n))
      = (\<Sum>a<n. \<Sum>b<n. g a b * cis (2 * pi * (real u * real a + real v * real b) / real n))"
    by (rule sum.cong, rule refl, rule sum.cong, rule refl) (simp add: assms)
  then show ?thesis by (simp only: idft2_spec_def)
qed

text \<open>
  C1. For a shear map whose \<open>e1\<close> is an \<open>nbins \<times> nbins\<close> array, the convergence that the
  constructor stores is, at every grid point, the inverse discrete Fourier transform of
  the product of the transformed complex shear \<open>e1 + i e2\<close> with the inversion kernel that
  the constructor builds; the E-mode image is its real part and the B-mode image its
  imaginary part.
\<close>

theorem kappa_is_kaiser_squires:
  assumes init: "KappaMap_init ShearMap (Some dat) (Some nbins) = Inr km"
    and sm: "ShearMap dat nbins = Inr sm"
    and sq: "map length (sm_e1 sm) = replicate (nat nbins) (nat nbins)"
    and j: "j < nat nbins" and k: "k < nat nbins"
  shows "\<exists>K. conjugate_inversion_kernel (bin_size km) nbins = Inr K
         \<and> kappa km ! j ! k
             = kaiser_squires_spec (nat nbins) (\<lambda>a b. sm_e1 sm ! a ! b) (\<lambda>a b. sm_e2 sm ! a ! b)
                 (\<lambda>u v. K ! u ! v) j k
         \<and> kappa_E km ! j ! k
             = Re (kaiser_squires_spec (nat nbins) (\<lambda>a b. sm_e1 sm ! a ! b)
                     (\<lambda>a b. sm_e2 sm ! a ! b) (\<lambda>u v. K ! u ! v) j k)
         \<and> kappa_B km ! j ! k
             = Im (kaiser_squires_spec (nat nbins) (\<lambda>a b. sm_e1 sm ! a ! b)
                     (\<lambda>a b. sm_e2 sm ! a ! b) (\<lambda>u v. K ! u ! v) j k)"
proof -
  let ?n = "nat nbins"
  from j have pos: "0 < ?n" by simp
  from KappaMap_init_Inr [OF init] sm obtain x1 x0 gam K T_kappa where
    g: "elementwise Complex (sm_e1 sm) (sm_e2 sm) = Inr gam" and
    kk: "conjugate_inversion_kernel (x1 - x0, x1 - x0) nbins = Inr K" and
    t: "elementwise (*) (fft2 gam) K = Inr T_kappa" and
    km: "km = \<lparr>shear_map = sm, px = sm_px sm, py = sm_px sm,
               bin_size = (x1 - x0, x1 - x0), kappa = ifft2 T_kappa\<rparr>"
    by auto
  note gs = elementwise_Inr [OF g sq]
  have fs: "map length (fft2 gam) = replicate ?n ?n"
    using fft2_shape [OF gs(1) pos] .
  note ts = elementwise_Inr [OF t fs]
  have entry: "T_kappa ! u ! v
      = dft2_spec ?n (\<lambda>a b. Complex (sm_e1 sm ! a ! b) (sm_e2 sm ! a ! b)) u v * K ! u ! v"
    if "u < ?n" "v < ?n" for u v
  proof -
    have "dft2_spec ?n (\<lambda>a b. gam ! a ! b) u v
        = dft2_spec ?n (\<lambda>a b. Complex (sm_e1 sm ! a ! b) (sm_e2 sm ! a ! b)) u v"
      by (rule dft2_spec_cong) (rule gs(2))
    with ts(2) [OF that] fft2_entry [OF gs(1) that] show ?thesis by simp
  qed
  have "kappa km ! j ! k = idft2_spec ?n (\<lambda>u v. T_kappa ! u ! v) j k"
    using ifft2_entry [OF ts(1) j k] by (simp add: km)
  also have "\<dots> = idft2_spec ?n
      (\<lambda>u v. dft2_spec ?n (\<lambda>a b. Complex (sm_e1 sm ! a ! b) (sm_e2 sm ! a ! b)) u v * K ! u ! v)
      j k"
    by (rule idft2_spec_cong) (rule entry)
  finally have main: "kappa km ! j ! k
      = kaiser_squires_spec ?n (\<lambda>a b. sm_e1 sm ! a ! b) (\<lambda>a b. sm_e2 sm ! a ! b)
          (\<lambda>u v. K ! u ! v) j k"
    by (simp only: kaiser_squires_spec_def)
  have shape: "map length (kappa km) = replicate ?n ?n"
    using ifft2_shape [OF ts(1) pos] by (simp add: km)
  from shape_length [OF shape] j k have
    "kappa_E km ! j ! k = Re (kappa km ! j ! k)" "kappa_B km ! j ! k = Im (kappa km ! j ! k)"
    by (simp_all add: kappa_E_def kappa_B_def)
  with main kk show ?thesis by (simp add: km)
qed

lemma example_shear_map_fields:
  "sm_px example_shear_map = [[0, 0], [1, 1]]" "sm_py example_shear_map = [[0, 0], [5, 5]]"
  "sm_e1 example_shear_map = [[1, 0], [0, 0]]" "sm_e2 example_shear_map = [[0, 0], [0, 1]]"
  by (simp_all add: example_shear_map_def)

lemma example_shear_map_init:
  "\<exists>km. KappaMap_init (\<lambda>d n. Inr example_shear_map) (Some ()) (Some 2) = Inr km"
proof (rule KappaMap_init_ok)
  show "Inr example_shear_map = (Inr example_shear_map :: error + shear_map)" ..
  show "(0::int) < 2" by simp
  show "index2 (sm_px example_shear_map) 1 0 = Inr 1"
    by (simp add: index2_def example_shear_map_fields)
  show "index2 (sm_px example_shear_map) 0 0 = Inr 0"
    by (simp add: index2_def example_shear_map_fields)
  show "(1::real) \<noteq> 0" by simp
  show "map length (sm_e1 example_shear_map) = replicate (nat 2) (nat 2)"
    by (simp add: example_shear_map_fields numeral_2_eq_2)
  show "map length (sm_e2 example_shear_map) = replicate (nat 2) (nat 2)"
    by (simp add: example_shear_map_fields numeral_2_eq_2)
qed

theorem kappa_is_kaiser_squires_witness:
  "\<exists>km K. KappaMap_init (\<lambda>d n. Inr example_shear_map) (Some ()) (Some 2) = Inr km
     \<and> conjugate_inversion_kernel (bin_size km) 2 = Inr K
     \<and> kappa km ! 1 ! 0
         = kaiser_squires_spec 2 (\<lambda>a b. [[1, 0], [0, 0]] ! a ! b) (\<lambda>a b. [[0, 0], [0, 1]] ! a ! b)
             (\<lambda>u v. K ! u ! v) 1 0
     \<and> kappa_E km ! 1 ! 0 = Re (kappa km ! 1 ! 0)"
proof -
  from example_shear_map_init obtain km where
    init: "KappaMap_init (\<lambda>d n. Inr example_shear_map) (Some ()) (Some 2) = Inr km" ..
  have sq: "map length (sm_e1 example_shear_map) = replicate (nat 2) (nat 2)"
    by (simp add: example_shear_map_fields numeral_2_eq_2)
  have j: "1 < nat 2" and k: "0 < nat 2" by simp_all
  from kappa_is_kaiser_squires [OF init refl sq j k] init show ?thesis
    by (auto simp: example_shear_map_fields)
qed


lemma index2_Inr: "index2 a i j = Inr v \<Longrightarrow> v = a ! i ! j"
  by (auto simp: index2_def split: if_splits)

text \<open>
  C10. In every constructed map the stored \<open>py\<close> is the \<open>px\<close> of the shear map, the first
  component of \<open>bin_size\<close> is \<open>px[1,0] - px[0,0]\<close> and the second component equals the first;
  both frequency arrays of the kernel are the one array of the x-spacing; and whatever
  grid the shear map holds as its \<open>py\<close>, the constructor builds the same map (only the
  stored copy of the shear map differs).
\<close>

theorem y_spacing_from_x_grid:
  assumes init: "KappaMap_init ShearMap (Some dat) (Some nbins) = Inr km"
    and sm: "ShearMap dat nbins = Inr sm"
  shows "py km = sm_px sm
       \<and> fst (bin_size km) = sm_px sm ! 1 ! 0 - sm_px sm ! 0 ! 0
       \<and> snd (bin_size km) = fst (bin_size km)
       \<and> (\<exists>k_x0. fftfreq nbins (fst (bin_size km)) = Inr k_x0
                 \<and> fftfreq nbins (snd (bin_size km)) = Inr k_x0)
       \<and> (\<forall>py'. KappaMap_init (\<lambda>d n. Inr (sm\<lparr>sm_py := py'\<rparr>)) (Some dat) (Some nbins)
                  = Inr (km\<lparr>shear_map := sm\<lparr>sm_py := py'\<rparr>\<rparr>))"
proof -
  from KappaMap_init_Inr [OF init] sm obtain x1 x0 gam K T_kappa where
    x1: "index2 (sm_px sm) 1 0 = Inr x1" and x0: "index2 (sm_px sm) 0 0 = Inr x0" and
    g: "elementwise Complex (sm_e1 sm) (sm_e2 sm) = Inr gam" and
    kk: "conjugate_inversion_kernel (x1 - x0, x1 - x0) nbins = Inr K" and
    t: "elementwise (*) (fft2 gam) K = Inr T_kappa" and
    km: "km = \<lparr>shear_map = sm, px = sm_px sm, py = sm_px sm,
               bin_size = (x1 - x0, x1 - x0), kappa = ifft2 T_kappa\<rparr>"
    by auto
  from kk obtain k_x0 where f: "fftfreq nbins (x1 - x0) = Inr k_x0"
    by (auto simp: conjugate_inversion_kernel_def Let_def dest!: and_then_Inr)
  have other: "KappaMap_init (\<lambda>d n. Inr (sm\<lparr>sm_py := py'\<rparr>)) (Some dat) (Some nbins)
      = Inr (km\<lparr>shear_map := sm\<lparr>sm_py := py'\<rparr>\<rparr>)" for py'
    using x1 x0 g kk t by (simp add: KappaMap_init_def and_then_def Let_def km)
  from index2_Inr [OF x1] index2_Inr [OF x0] f other show ?thesis
    by (simp add: km)
qed

theorem y_spacing_from_x_grid_witness:
  "\<exists>km. KappaMap_init (\<lambda>d n. Inr example_shear_map) (Some ()) (Some 2) = Inr km
     \<and> py km = [[0, 0], [1, 1]] \<and> bin_size km = (1, 1)
     \<and> sm_py example_shear_map ! 1 ! 0 - sm_py example_shear_map ! 0 ! 0 = 5"
proof -
  from example_shear_map_init obtain km where
    init: "KappaMap_init (\<lambda>d n. Inr example_shear_map) (Some ()) (Some 2) = Inr km" ..
  from y_spacing_from_x_grid [OF init refl] have
    "py km = sm_px example_shear_map"
    "fst (bin_size km) = sm_px example_shear_map ! 1 ! 0 - sm_px example_shear_map ! 0 ! 0"
    "snd (bin_size km) = fst (bin_size km)"
    by blast+
  then have "py km = [[0, 0], [1, 1]]" "bin_size km = (1, 1)"
    by (simp_all add: example_shear_map_fields prod_eq_iff)
  with init show ?thesis by (auto simp: example_shear_map_fields)
qed

end
